theory Spec2Isabelle
  imports
    Main
    "HOL-Library.AList"
    "HOL-Library.Char_ord"
    "HOL-Library.List_Lexorder"
    "HOL-Library.Product_Lexorder"
begin

section \<open>Payload values\<close>

text \<open>
  The integration receives decoded JSON and handles it as untyped Python values
  (\<^verbatim>\<open>dict[str, Any]\<close>). A value is \<^verbatim>\<open>None\<close>, a bool, an int, a float, a str, a
  list or a dict with string keys. A dict is an association list in insertion order; its
  keys are pairwise different, as in Python, and lookup is \<^const>\<open>map_of\<close>.

  A float is what the decoder yields for a number with a fraction or an exponent, and for
  \<^verbatim>\<open>Infinity\<close>, \<^verbatim>\<open>-Infinity\<close> and \<^verbatim>\<open>NaN\<close>; a number beyond the range of a double,
  such as \<^verbatim>\<open>1e999\<close>, decodes to infinity. A finite float \<open>Finite m e t\<close> has the value
  \<open>m * 2 ^ e\<close>. The text that \<^verbatim>\<open>repr\<close> gives for it, the shortest decimal that reads
  back as the same double, is not computed here: it is carried with the value as \<open>t\<close>,
  a string that is never empty.

  Two restrictions of the embedding: a character is a code point below 256, and an int
  of a payload has at most 4300 digits (the decoder raises on a longer literal).
\<close>

datatype float_text = FloatText char string

fun text_string :: "float_text \<Rightarrow> string" where
  "text_string (FloatText c cs) = c # cs"

datatype pyfloat = Finite int int float_text | PosInf | NegInf | NaN

datatype json =
    JNull
  | JBool bool
  | JInt int
  | JFloat pyfloat
  | JStr string
  | JList "json list"
  | JDict "(string \<times> json) list"

type_synonym pydict = "(string \<times> json) list"

text \<open>
  The exceptions the modelled code can raise. \<^verbatim>\<open>OverflowError\<close> is no subclass of
  \<^verbatim>\<open>TypeError\<close> or \<^verbatim>\<open>ValueError\<close>. \<open>NoUsableSeason ks\<close> is the
  \<^verbatim>\<open>ValueError\<close> of \<^verbatim>\<open>_extract_season\<close>, whose message lists the keys \<open>ks\<close> of the
  payload. \<open>FetchError\<close> is any failure of an HTTP request and \<open>StoreError\<close> any failure
  of the persistent store. \<open>UpdateFailed e\<close> is a poller's failure, caused by \<open>e\<close>.
\<close>

datatype error =
    TypeError
  | ValueError
  | OverflowError
  | AttributeError
  | NoUsableSeason "string list"
  | FetchError
  | StoreError
  | UpdateFailed error

section \<open>The Python built-ins the code uses\<close>

text \<open>Truth value of a value, as tested by \<^verbatim>\<open>if x\<close>, \<^verbatim>\<open>x or y\<close> and \<^verbatim>\<open>bool(x)\<close>.\<close>

fun truthy :: "json \<Rightarrow> bool" where
  "truthy JNull = False"
| "truthy (JBool b) = b"
| "truthy (JInt n) = (n \<noteq> 0)"
| "truthy (JFloat (Finite m e t)) = (m \<noteq> 0)"
| "truthy (JFloat f) = True"
| "truthy (JStr s) = (s \<noteq> [])"
| "truthy (JList xs) = (xs \<noteq> [])"
| "truthy (JDict kvs) = (kvs \<noteq> [])"

text \<open>\<^verbatim>\<open>a or b\<close>.\<close>

definition py_or :: "json \<Rightarrow> json \<Rightarrow> json" where
  "py_or a b = (if truthy a then a else b)"

text \<open>\<^verbatim>\<open>d.get(k)\<close> and \<^verbatim>\<open>d.get(k, default)\<close>.\<close>

definition py_get_default :: "pydict \<Rightarrow> string \<Rightarrow> json \<Rightarrow> json" where
  "py_get_default d k dflt = (case map_of d k of None \<Rightarrow> dflt | Some v \<Rightarrow> v)"

definition py_get :: "pydict \<Rightarrow> string \<Rightarrow> json" where
  "py_get d k = py_get_default d k JNull"

text \<open>\<^verbatim>\<open>x in (None, "")\<close>: equality with \<^verbatim>\<open>None\<close> or with the empty string.\<close>

definition none_or_empty :: "json \<Rightarrow> bool" where
  "none_or_empty v = (v = JNull \<or> v = JStr [])"

subsection \<open>Decimal text of an int\<close>

definition digit_char :: "nat \<Rightarrow> char" where
  "digit_char d = char_of (48 + d)"

fun string_of_nat :: "nat \<Rightarrow> string" where
  "string_of_nat n =
     (if n < 10 then [digit_char n] else string_of_nat (n div 10) @ [digit_char (n mod 10)])"

declare string_of_nat.simps [simp del]

definition string_of_int :: "int \<Rightarrow> string" where
  "string_of_int i = (if i < 0 then CHR ''-'' # string_of_nat (nat (- i)) else string_of_nat (nat i))"

subsection \<open>\<^verbatim>\<open>str.strip()\<close>\<close>

text \<open>The code points below 256 for which \<^verbatim>\<open>str.isspace()\<close> holds.\<close>

definition is_space :: "char \<Rightarrow> bool" where
  "is_space c = ((of_char c :: nat) \<in> {9, 10, 11, 12, 13, 28, 29, 30, 31, 32, 133, 160})"

definition strip :: "string \<Rightarrow> string" where
  "strip s = rev (dropWhile is_space (rev (dropWhile is_space s)))"

subsection \<open>\<^verbatim>\<open>int(x)\<close>\<close>

text \<open>
  On a str, \<^verbatim>\<open>int\<close> skips white space at both ends and reads an optional sign and
  decimal digits, where one underscore may stand between two digits; anything else
  raises \<^verbatim>\<open>ValueError\<close>, and so do more than 4300 digits. The white space of
  \<^verbatim>\<open>int\<close> is that of \<^verbatim>\<open>str.strip\<close> without the four separators 0x1C to 0x1F.
  On \<^verbatim>\<open>None\<close>, a list or a dict \<^verbatim>\<open>int\<close> raises \<^verbatim>\<open>TypeError\<close>; a bool is 0 or 1;
  a finite float is truncated towards zero, \<^verbatim>\<open>NaN\<close> raises \<^verbatim>\<open>ValueError\<close> and an
  infinity raises \<^verbatim>\<open>OverflowError\<close>.
\<close>

definition is_int_space :: "char \<Rightarrow> bool" where
  "is_int_space c = ((of_char c :: nat) \<in> {9, 10, 11, 12, 13, 32, 133, 160})"

definition int_strip :: "string \<Rightarrow> string" where
  "int_strip s = rev (dropWhile is_int_space (rev (dropWhile is_int_space s)))"

definition MAX_STR_DIGITS :: nat where
  "MAX_STR_DIGITS = 4300"

definition is_digit :: "char \<Rightarrow> bool" where
  "is_digit c = (48 \<le> (of_char c :: nat) \<and> (of_char c :: nat) \<le> 57)"

definition digit_val :: "char \<Rightarrow> nat" where
  "digit_val c = of_char c - 48"

fun parse_digits :: "nat \<Rightarrow> string \<Rightarrow> nat option" where
  "parse_digits acc [] = Some acc"
| "parse_digits acc [c] = (if is_digit c then Some (10 * acc + digit_val c) else None)"
| "parse_digits acc (c # d # cs) =
     (if is_digit c then parse_digits (10 * acc + digit_val c) (d # cs)
      else if c = CHR ''_'' \<and> is_digit d then parse_digits (10 * acc + digit_val d) cs
      else None)"

definition parse_nat :: "string \<Rightarrow> nat option" where
  "parse_nat s =
     (case s of
        [] \<Rightarrow> None
      | c # cs \<Rightarrow>
          if MAX_STR_DIGITS < length (filter is_digit s) then None
          else if is_digit c then parse_digits (digit_val c) cs else None)"

definition int_of_string :: "string \<Rightarrow> int option" where
  "int_of_string s =
     (case int_strip s of
        [] \<Rightarrow> None
      | c # cs \<Rightarrow>
          if c = CHR ''-'' then map_option (\<lambda>n. - int n) (parse_nat cs)
          else if c = CHR ''+'' then map_option int (parse_nat cs)
          else map_option int (parse_nat (c # cs)))"

definition truncate_float :: "int \<Rightarrow> int \<Rightarrow> int" where
  "truncate_float m e =
     (if 0 \<le> e then m * 2 ^ nat e
      else if 0 \<le> m then m div 2 ^ nat (- e)
      else - ((- m) div 2 ^ nat (- e)))"

fun py_int :: "json \<Rightarrow> error + int" where
  "py_int JNull = Inl TypeError"
| "py_int (JBool b) = Inr (if b then 1 else 0)"
| "py_int (JInt n) = Inr n"
| "py_int (JFloat (Finite m e t)) = Inr (truncate_float m e)"
| "py_int (JFloat PosInf) = Inl OverflowError"
| "py_int (JFloat NegInf) = Inl OverflowError"
| "py_int (JFloat NaN) = Inl ValueError"
| "py_int (JStr s) = (case int_of_string s of None \<Rightarrow> Inl ValueError | Some n \<Rightarrow> Inr n)"
| "py_int (JList xs) = Inl TypeError"
| "py_int (JDict kvs) = Inl TypeError"

subsection \<open>\<^verbatim>\<open>str(x)\<close> and \<^verbatim>\<open>repr(x)\<close>\<close>

definition hex_char :: "nat \<Rightarrow> char" where
  "hex_char d = (if d < 10 then char_of (48 + d) else char_of (87 + d))"

text \<open>
  \<^verbatim>\<open>repr\<close> of one character of a str inside the quote \<open>q\<close>: the quote and the backslash
  are escaped, tab, newline and carriage return have short escapes, and every other
  code point that is not printable is written \<^verbatim>\<open>\xhh\<close>.
\<close>

definition printable :: "char \<Rightarrow> bool" where
  "printable c =
     (let n = (of_char c :: nat) in (32 \<le> n \<and> n < 127) \<or> (161 \<le> n \<and> n \<noteq> 173))"

definition repr_char :: "char \<Rightarrow> char \<Rightarrow> string" where
  "repr_char q c =
     (if c = q \<or> c = CHR 0x5C then [CHR 0x5C, c]
      else if c = CHR 0x09 then [CHR 0x5C, CHR ''t'']
      else if c = CHR 0x0A then [CHR 0x5C, CHR ''n'']
      else if c = CHR 0x0D then [CHR 0x5C, CHR ''r'']
      else if printable c then [c]
      else [CHR 0x5C, CHR ''x'', hex_char (of_char c div 16), hex_char (of_char c mod 16)])"

definition repr_string :: "string \<Rightarrow> string" where
  "repr_string s =
     (let q = (if CHR 0x27 \<in> set s \<and> CHR 0x22 \<notin> set s then CHR 0x22 else CHR 0x27)
      in [q] @ concat (map (repr_char q) s) @ [q])"

fun join :: "string \<Rightarrow> string list \<Rightarrow> string" where
  "join sep [] = []"
| "join sep [x] = x"
| "join sep (x # y # ys) = x @ sep @ join sep (y # ys)"

fun float_repr :: "pyfloat \<Rightarrow> string" where
  "float_repr (Finite m e t) = text_string t"
| "float_repr PosInf = ''inf''"
| "float_repr NegInf = ''-inf''"
| "float_repr NaN = ''nan''"

primrec py_repr :: "json \<Rightarrow> string" where
  "py_repr JNull = ''None''"
| "py_repr (JBool b) = (if b then ''True'' else ''False'')"
| "py_repr (JInt n) = string_of_int n"
| "py_repr (JFloat f) = float_repr f"
| "py_repr (JStr s) = repr_string s"
| "py_repr (JList xs) = ''['' @ join '', '' (map py_repr xs) @ '']''"
| "py_repr (JDict kvs) =
     ''{'' @ join '', '' (map (\<lambda>kv. repr_string (fst kv) @ '': '' @ snd kv) (map (map_prod id py_repr) kvs)) @ ''}''"

definition py_str :: "json \<Rightarrow> string" where
  "py_str v = (case v of JStr s \<Rightarrow> s | _ \<Rightarrow> py_repr v)"

section \<open>Name resolution and season extraction (coordinator.py)\<close>

text \<open>
  \<^verbatim>\<open>_player_name_from_payload\<close>: the first of \<^verbatim>\<open>Name\<close>, \<^verbatim>\<open>FullName\<close>,
  \<^verbatim>\<open>DisplayName\<close> that is a key of the payload with a true value gives the name;
  otherwise first and last name are joined and stripped.
\<close>

definition name_keys :: "string list" where
  "name_keys = [''Name'', ''FullName'', ''DisplayName'']"

definition player_name_from_payload :: "pydict \<Rightarrow> string" where
  "player_name_from_payload p =
     (case find (\<lambda>key. map_of p key \<noteq> None \<and> truthy (py_get p key)) name_keys of
        Some key \<Rightarrow> py_str (py_get p key)
      | None \<Rightarrow>
          (let fn = strip (py_str (py_get_default p ''FirstName'' (JStr [])));
               ln = strip (py_str (py_get_default p ''LastName'' (JStr [])));
               name = strip (fn @ '' '' @ ln)
           in if name \<noteq> [] then name
              else ''Player '' @ py_str (py_get_default p ''ID'' (JStr ''?''))))"

text \<open>The exceptions that \<^verbatim>\<open>except (TypeError, ValueError)\<close> catches.\<close>

definition type_or_value_error :: "error \<Rightarrow> bool" where
  "type_or_value_error e = (e = TypeError \<or> e = ValueError)"

text \<open>
  \<^verbatim>\<open>_extract_season\<close>: the loop over the candidate keys; a value that is \<^verbatim>\<open>None\<close>
  or empty, or on which \<^verbatim>\<open>int\<close> raises \<^verbatim>\<open>TypeError\<close> or \<^verbatim>\<open>ValueError\<close>, is
  passed over; any other exception of \<^verbatim>\<open>int\<close> leaves the function.
\<close>

definition season_keys :: "string list" where
  "season_keys = [''Season'', ''ID'', ''CurrentSeason'', ''SeasonID'']"

fun extract_season_loop :: "pydict \<Rightarrow> string list \<Rightarrow> error + int" where
  "extract_season_loop payload [] = Inl (NoUsableSeason (map fst payload))"
| "extract_season_loop payload (key # keys) =
     (let raw = py_get payload key in
      if none_or_empty raw then extract_season_loop payload keys
      else (case py_int raw of
              Inr n \<Rightarrow> Inr n
            | Inl e \<Rightarrow>
                if type_or_value_error e then extract_season_loop payload keys else Inl e))"

definition extract_season :: "pydict \<Rightarrow> error + int" where
  "extract_season payload = extract_season_loop payload season_keys"


text \<open>What the claim on season extraction calls a key that is present with a non-empty,
  integer-parseable value.\<close>

definition usable_season_key :: "pydict \<Rightarrow> string \<Rightarrow> bool" where
  "usable_season_key p k =
     (map_of p k \<noteq> None \<and> py_get p k \<noteq> JStr [] \<and>
      (case py_int (py_get p k) of Inr n \<Rightarrow> True | Inl e \<Rightarrow> False))"

text \<open>
  Name resolution as the specification words it, for comparison with the code: the
  concatenation of the trimmed first name, a space and the trimmed last name is the
  result as it stands, and the fallback applies when that concatenation holds nothing
  but white space (which the specification's own example of an empty payload requires).
\<close>

definition spec_name_resolution :: "pydict \<Rightarrow> string" where
  "spec_name_resolution p =
     (case find (\<lambda>key. map_of p key \<noteq> None \<and> truthy (py_get p key)) name_keys of
        Some key \<Rightarrow> py_str (py_get p key)
      | None \<Rightarrow>
          (let c = strip (py_str (py_get_default p ''FirstName'' (JStr []))) @ '' '' @
                   strip (py_str (py_get_default p ''LastName'' (JStr [])))
           in if strip c = [] then ''Player '' @ py_str (py_get_default p ''ID'' (JStr ''?''))
              else c))"

section \<open>The API client (api.py)\<close>

text \<open>\<^verbatim>\<open>_first_dict\<close> and \<^verbatim>\<open>_as_list\<close>, the two normalisers of a decoded response.\<close>

fun first_dict :: "json \<Rightarrow> pydict" where
  "first_dict (JList (JDict d # xs)) = d"
| "first_dict (JList xs) = []"
| "first_dict (JDict d) = d"
| "first_dict v = []"

fun the_dicts :: "json list \<Rightarrow> pydict list" where
  "the_dicts [] = []"
| "the_dicts (JDict d # xs) = d # the_dicts xs"
| "the_dicts (x # xs) = the_dicts xs"

fun as_list :: "json \<Rightarrow> pydict list" where
  "as_list (JList xs) = the_dicts xs"
| "as_list (JDict d) = [d]"
| "as_list v = []"

text \<open>
  Each method of \<^verbatim>\<open>SnookerOrgApi\<close> is one GET followed by what the method does with
  the decoded response; the functions below are that second part, applied to the
  response \<open>payload\<close>. Three methods hand the response on as it is.
\<close>

definition get_current_season :: "json \<Rightarrow> pydict" where
  "get_current_season payload = first_dict payload"

definition get_rankings :: "json \<Rightarrow> pydict list" where
  "get_rankings payload = as_list payload"

definition get_upcoming_matches :: "json \<Rightarrow> json" where
  "get_upcoming_matches payload = payload"

definition get_events_in_season :: "json \<Rightarrow> json" where
  "get_events_in_season payload = payload"

definition get_current_matches :: "json \<Rightarrow> pydict list" where
  "get_current_matches payload = as_list payload"

definition get_matches_of_event :: "json \<Rightarrow> json" where
  "get_matches_of_event payload = payload"

definition get_player :: "json \<Rightarrow> pydict" where
  "get_player payload = first_dict payload"

text \<open>The shape a caller of a list method expects: a list whose members are all objects.\<close>

definition is_object :: "json \<Rightarrow> bool" where
  "is_object v = (case v of JDict d \<Rightarrow> True | _ \<Rightarrow> False)"

definition is_object_list :: "json \<Rightarrow> bool" where
  "is_object_list v = (case v of JList xs \<Rightarrow> list_all is_object xs | _ \<Rightarrow> False)"

section \<open>The player cache and the world around one refresh cycle (coordinator.py)\<close>

text \<open>
  \<^verbatim>\<open>PlayerCache\<close>: the dict from player id to display name, in insertion order, and
  the time of the last full refresh as it is kept (an ISO string or \<^verbatim>\<open>None\<close>; the
  value is read back from storage unchecked, so it is a payload value here).
\<close>

record player_cache =
  players :: "(int \<times> string) list"
  last_refreshed :: json

text \<open>
  A point in time, in microseconds; \<^verbatim>\<open>datetime\<close> objects are timezone-aware or
  naive, and Python refuses to subtract one kind from the other.
\<close>

datatype datetime = Aware int | Naive int

text \<open>
  Everything outside the repository that one cycle depends on: the decoded response (or
  the failure) of each GET, by the arguments of the client method that issues it;
  whether the persistent store fails on saving; and the three functions of the host's
  \<^verbatim>\<open>dt_util\<close> and of \<^verbatim>\<open>datetime\<close> that the monthly refresh calls. A response is fixed
  for the duration of the cycle. The wait on HTTP 403 is not modelled.
\<close>

record world =
  current_season_response :: "error + json"
  rankings_response :: "int \<Rightarrow> string \<Rightarrow> error + json"
  upcoming_response :: "string \<Rightarrow> error + json"
  events_response :: "int \<Rightarrow> string option \<Rightarrow> error + json"
  current_matches_response :: "string \<Rightarrow> error + json"
  player_response :: "int \<Rightarrow> error + json"
  store_save_error :: "error option"
  utcnow :: int
  parse_datetime :: "json \<Rightarrow> error + datetime option"
  isoformat :: "int \<Rightarrow> string"

text \<open>Sequencing of steps that may raise: the first exception ends the sequence.\<close>

definition and_then :: "error + 'a \<Rightarrow> ('a \<Rightarrow> error + 'b) \<Rightarrow> error + 'b" where
  "and_then x f = (case x of Inl e \<Rightarrow> Inl e | Inr v \<Rightarrow> f v)"

text \<open>
  \<^verbatim>\<open>len(x)\<close> followed by an iteration over \<^verbatim>\<open>x\<close> (a \<^verbatim>\<open>for\<close> loop or
  \<^verbatim>\<open>list.extend\<close>): a list gives its members, a dict its keys, a str its characters,
  and anything else raises \<^verbatim>\<open>TypeError\<close>.
\<close>

fun py_iter :: "json \<Rightarrow> error + json list" where
  "py_iter (JList xs) = Inr xs"
| "py_iter (JDict kvs) = Inr (map (\<lambda>kv. JStr (fst kv)) kvs)"
| "py_iter (JStr s) = Inr (map (\<lambda>c. JStr [c]) s)"
| "py_iter v = Inl TypeError"

text \<open>\<^verbatim>\<open>SnookerOrgApi.paced_player_fetch\<close>: one \<^verbatim>\<open>get_player\<close> per id, in order; a
  failed request ends the loop and nothing is returned.\<close>

fun paced_loop :: "world \<Rightarrow> int list \<Rightarrow> (int \<times> pydict) list \<Rightarrow> error + (int \<times> pydict) list" where
  "paced_loop w [] out = Inr out"
| "paced_loop w (pid # pids) out =
     (case player_response w pid of
        Inl e \<Rightarrow> Inl e
      | Inr payload \<Rightarrow> paced_loop w pids (AList.update pid (get_player payload) out))"

definition paced_player_fetch :: "world \<Rightarrow> int list \<Rightarrow> error + (int \<times> pydict) list" where
  "paced_player_fetch w player_ids = paced_loop w player_ids []"

text \<open>
  The loop \<^verbatim>\<open>for pid, payload in players_payload.items(): cache.players[pid] =
  _player_name_from_payload(payload)\<close>, which the monthly refresh and both backfills share.
\<close>

definition store_names :: "(int \<times> pydict) list \<Rightarrow> (int \<times> string) list \<Rightarrow> (int \<times> string) list" where
  "store_names players_payload ps =
     fold (\<lambda>kv. AList.update (fst kv) (player_name_from_payload (snd kv))) players_payload ps"

text \<open>
  \<^verbatim>\<open>save_player_cache\<close> returns the new content of the store, and
  \<^verbatim>\<open>load_player_cache\<close> reads a cache from the content of the store (\<^verbatim>\<open>None\<close> when
  nothing was ever saved).
\<close>

definition save_player_cache :: "world \<Rightarrow> player_cache \<Rightarrow> error + json" where
  "save_player_cache w cache =
     (case store_save_error w of
        Some e \<Rightarrow> Inl e
      | None \<Rightarrow>
          Inr (JDict [(''players'',
                       JDict (map (\<lambda>kv. (string_of_int (fst kv), JStr (snd kv))) (players cache))),
                      (''last_refreshed'', last_refreshed cache)]))"



text \<open>\<^verbatim>\<open>self.season_coord.data or await self.api.get_current_season()\<close>.\<close>

definition season_payload_of :: "world \<Rightarrow> pydict option \<Rightarrow> error + pydict" where
  "season_payload_of w season_data =
     (case season_data of
        Some d \<Rightarrow> if d \<noteq> [] then Inr d else map_sum id get_current_season (current_season_response w)
      | None \<Rightarrow> map_sum id get_current_season (current_season_response w))"

section \<open>The rankings poller\<close>

definition RANKING_MONEY :: string where
  "RANKING_MONEY = ''MoneyRankings''"

definition RANKING_ONE_YEAR_MONEY :: string where
  "RANKING_ONE_YEAR_MONEY = ''OneYearMoneyRankings''"

text \<open>The id that \<^verbatim>\<open>decorate\<close> resolves for a row, and the name it attaches.\<close>

definition ranking_pid :: "pydict \<Rightarrow> error + int" where
  "ranking_pid r = py_int (py_or (py_get_default r ''PlayerID'' (py_get_default r ''ID'' (JInt 0))) (JInt 0))"

definition name_or_hash :: "(int \<times> string) list \<Rightarrow> int \<Rightarrow> string" where
  "name_or_hash ps pid =
     (case map_of ps pid of
        Some name \<Rightarrow> if name \<noteq> [] then name else ''#'' @ string_of_int pid
      | None \<Rightarrow> ''#'' @ string_of_int pid)"

fun decorate_rows :: "(int \<times> string) list \<Rightarrow> pydict list \<Rightarrow> error + pydict list" where
  "decorate_rows ps [] = Inr []"
| "decorate_rows ps (r # rs) =
     and_then (ranking_pid r) (\<lambda>pid.
     and_then (decorate_rows ps rs) (\<lambda>out.
       Inr (AList.update ''PlayerName'' (JStr (name_or_hash ps pid)) r # out)))"

definition decorate :: "(int \<times> string) list \<Rightarrow> pydict list \<Rightarrow> error + pydict list" where
  "decorate ps rows = decorate_rows ps (take 10 rows)"

record rankings_result =
  rk_season :: int
  top10_money :: "pydict list"
  top10_one_year_money :: "pydict list"

definition rankings_body :: "world \<Rightarrow> pydict option \<Rightarrow> player_cache \<Rightarrow> error + rankings_result" where
  "rankings_body w season_data cache =
     and_then (season_payload_of w season_data) (\<lambda>season_payload.
     and_then (extract_season season_payload) (\<lambda>season.
     and_then (map_sum id get_rankings (rankings_response w season RANKING_MONEY)) (\<lambda>money.
     and_then (map_sum id get_rankings (rankings_response w season RANKING_ONE_YEAR_MONEY)) (\<lambda>one_year.
     and_then (decorate (players cache) money) (\<lambda>top_money.
     and_then (decorate (players cache) one_year) (\<lambda>top_one_year.
       Inr \<lparr>rk_season = season, top10_money = top_money, top10_one_year_money = top_one_year\<rparr>))))))"

text \<open>
  \<^verbatim>\<open>RankingsCoordinator._async_update_data\<close>: the published result or
  \<^verbatim>\<open>UpdateFailed\<close>, and the player cache as the cycle leaves it.
\<close>

definition rankings_update ::
  "world \<Rightarrow> pydict option \<Rightarrow> player_cache \<Rightarrow> (error + rankings_result) \<times> player_cache" where
  "rankings_update w season_data cache =
     (case rankings_body w season_data cache of
        Inl err \<Rightarrow> (Inl (UpdateFailed err), cache)
      | Inr result \<Rightarrow> (Inr result, cache))"

section \<open>The events-in-season poller\<close>

record event =
  ev_ID :: int
  ev_Name :: string
  ev_City :: string
  ev_Venue :: string
  ev_Type :: string
  ev_StartDate :: string
  ev_EndDate :: string

record events_result =
  er_season :: int
  er_count :: nat
  er_events :: "event list"
  er_events_by_id :: "(int \<times> event) list"

text \<open>The raw events: one request per tour, concatenated, or one request without a tour.\<close>

fun tour_events_loop :: "world \<Rightarrow> int \<Rightarrow> string list \<Rightarrow> error + json list" where
  "tour_events_loop w season [] = Inr []"
| "tour_events_loop w season (tr # trs) =
     and_then (map_sum id get_events_in_season (events_response w season (Some tr))) (\<lambda>tour_events.
     and_then (py_iter tour_events) (\<lambda>xs.
     and_then (tour_events_loop w season trs) (\<lambda>ys. Inr (xs @ ys))))"

definition fetch_raw_events :: "world \<Rightarrow> int \<Rightarrow> string list \<Rightarrow> error + json list" where
  "fetch_raw_events w season tours =
     (if tours \<noteq> [] then tour_events_loop w season tours
      else and_then (map_sum id get_events_in_season (events_response w season None)) py_iter)"

text \<open>The candidate id of a raw event, \<^verbatim>\<open>raw.get("ID") or raw.get("EventID") or
  raw.get("EID")\<close>, and the event built from the raw event once the id is parsed.\<close>

definition raw_event_id :: "pydict \<Rightarrow> json" where
  "raw_event_id raw = py_or (py_or (py_get raw ''ID'') (py_get raw ''EventID'')) (py_get raw ''EID'')"

definition make_event :: "int \<Rightarrow> pydict \<Rightarrow> event" where
  "make_event event_id_int raw =
     \<lparr>ev_ID = event_id_int,
      ev_Name = py_str (py_or (py_or (py_get raw ''Name'') (py_get raw ''EventName'')) (JStr [])),
      ev_City = py_str (py_or (py_get raw ''City'') (JStr [])),
      ev_Venue = py_str (py_or (py_get raw ''Venue'') (JStr [])),
      ev_Type = py_str (py_or (py_get raw ''Type'') (JStr [])),
      ev_StartDate = py_str (py_or (py_or (py_get raw ''StartDate'') (py_get raw ''Start'')) (JStr [])),
      ev_EndDate = py_str (py_or (py_or (py_get raw ''EndDate'') (py_get raw ''End'')) (JStr []))\<rparr>"

text \<open>
  The loop that fills \<^verbatim>\<open>events_by_id\<close>. A member of the raw list that is no dict has
  no \<^verbatim>\<open>get\<close>, which raises \<^verbatim>\<open>AttributeError\<close>; an id that is \<^verbatim>\<open>None\<close> or on which
  \<^verbatim>\<open>int\<close> raises \<^verbatim>\<open>TypeError\<close> or \<^verbatim>\<open>ValueError\<close> skips the raw event; any other
  exception of \<^verbatim>\<open>int\<close> leaves the loop.
\<close>

fun events_loop :: "json list \<Rightarrow> (int \<times> event) list \<Rightarrow> error + (int \<times> event) list" where
  "events_loop [] events_by_id = Inr events_by_id"
| "events_loop (JDict raw # raws) events_by_id =
     (if raw_event_id raw = JNull then events_loop raws events_by_id
      else (case py_int (raw_event_id raw) of
              Inl e \<Rightarrow> if type_or_value_error e then events_loop raws events_by_id else Inl e
            | Inr event_id_int \<Rightarrow>
                events_loop raws (AList.update event_id_int (make_event event_id_int raw) events_by_id)))"
| "events_loop (v # raws) events_by_id = Inl AttributeError"

definition events_body :: "world \<Rightarrow> pydict option \<Rightarrow> string list \<Rightarrow> error + events_result" where
  "events_body w season_data tours =
     and_then (season_payload_of w season_data) (\<lambda>season_payload.
     and_then (extract_season season_payload) (\<lambda>season.
     and_then (fetch_raw_events w season tours) (\<lambda>raw_events.
     and_then (events_loop raw_events []) (\<lambda>events_by_id.
       (let events = sort_key ev_ID (map snd events_by_id)
        in Inr \<lparr>er_season = season, er_count = length events, er_events = events,
                er_events_by_id = events_by_id\<rparr>)))))"

text \<open>\<^verbatim>\<open>EventsInSeasonCoordinator._async_update_data\<close>.\<close>

definition events_update :: "world \<Rightarrow> pydict option \<Rightarrow> string list \<Rightarrow> error + events_result" where
  "events_update w season_data tours =
     (case events_body w season_data tours of
        Inl err \<Rightarrow> Inl (UpdateFailed err)
      | Inr result \<Rightarrow> Inr result)"

text \<open>
  The integer id of a member of the raw event list, when it has one that parses, and the
  event the loop builds from such a member.
\<close>

definition event_key :: "json \<Rightarrow> int option" where
  "event_key v =
     (case v of
        JDict raw \<Rightarrow>
          (if raw_event_id raw = JNull then None
           else (case py_int (raw_event_id raw) of Inr i \<Rightarrow> Some i | Inl e \<Rightarrow> None))
      | _ \<Rightarrow> None)"

definition event_of :: "json \<Rightarrow> event option" where
  "event_of v = (case v of JDict raw \<Rightarrow> map_option (\<lambda>i. make_event i raw) (event_key v) | _ \<Rightarrow> None)"

text \<open>A world in which every request succeeds with an empty list, except that the
  current season is 2024; the examples below vary it.\<close>

definition demo_world :: world where
  "demo_world =
     \<lparr>current_season_response = Inr (JList [JDict [(''Season'', JInt 2024)]]),
      rankings_response = (\<lambda>season ranking_type. Inr (JList [])),
      upcoming_response = (\<lambda>tour. Inr (JList [])),
      events_response = (\<lambda>season tour. Inr (JList [])),
      current_matches_response = (\<lambda>tour. Inr (JList [])),
      player_response = (\<lambda>pid. Inr (JList [])),
      store_save_error = None,
      utcnow = 0,
      parse_datetime = (\<lambda>v. Inr None),
      isoformat = (\<lambda>t. ''now'')\<rparr>"

section \<open>The match-scores poller\<close>

record score_match =
  sm_MatchID :: int
  sm_EventID :: "int option"
  sm_EventName :: string
  sm_EventType :: string
  sm_EventCity :: string
  sm_Player1ID :: "int option"
  sm_Player1Name :: string
  sm_Score1 :: int
  sm_Player2ID :: "int option"
  sm_Player2Name :: string
  sm_Score2 :: int
  sm_Status :: int
  sm_Unfinished :: bool
  sm_ScheduledDate :: string
  sm_StartDate :: string
  sm_EndDate :: string

record scores_result =
  sr_count :: nat
  sr_matches :: "score_match list"

text \<open>
  The \<^verbatim>\<open>as_int\<close> of this poller: \<^verbatim>\<open>None\<close> for a value that is \<^verbatim>\<open>None\<close> or
  empty or on which \<^verbatim>\<open>int\<close> raises \<^verbatim>\<open>TypeError\<close> or \<^verbatim>\<open>ValueError\<close>; any other
  exception of \<^verbatim>\<open>int\<close> leaves the helper.
\<close>

definition scores_as_int :: "json \<Rightarrow> error + int option" where
  "scores_as_int val =
     (if none_or_empty val then Inr None
      else (case py_int val of
              Inr n \<Rightarrow> Inr (Some n)
            | Inl e \<Rightarrow> if type_or_value_error e then Inr None else Inl e))"

text \<open>\<^verbatim>\<open>if x\<close> and \<^verbatim>\<open>x or -1\<close> on an id that is an int or \<^verbatim>\<open>None\<close>.\<close>

definition id_truthy :: "int option \<Rightarrow> bool" where
  "id_truthy x = (case x of Some n \<Rightarrow> n \<noteq> 0 | None \<Rightarrow> False)"

definition or_minus_one :: "int option \<Rightarrow> int" where
  "or_minus_one x = (case x of Some n \<Rightarrow> if n \<noteq> 0 then n else - 1 | None \<Rightarrow> - 1)"

text \<open>\<^verbatim>\<open>(self.events_coord.data or {}).get("events_by_id", {})\<close>.\<close>

definition events_map_of :: "events_result option \<Rightarrow> (int \<times> event) list" where
  "events_map_of events_data = (case events_data of Some r \<Rightarrow> er_events_by_id r | None \<Rightarrow> [])"

text \<open>\<^verbatim>\<open>event.get(field) or ""\<close> for \<^verbatim>\<open>event = events_map.get(event_id or -1, {})\<close>.\<close>

definition event_field :: "(int \<times> event) list \<Rightarrow> int option \<Rightarrow> (event \<Rightarrow> string) \<Rightarrow> string" where
  "event_field events_map event_id field =
     (case map_of events_map (or_minus_one event_id) of Some e \<Rightarrow> field e | None \<Rightarrow> [])"

text \<open>\<^verbatim>\<open>players.get(p_id or -1, f"#{p_id}" if p_id else "TBD")\<close>.\<close>

definition first_pass_name :: "(int \<times> string) list \<Rightarrow> int option \<Rightarrow> string" where
  "first_pass_name ps p_id =
     (case map_of ps (or_minus_one p_id) of
        Some name \<Rightarrow> name
      | None \<Rightarrow> if id_truthy p_id then ''#'' @ string_of_int (the p_id) else ''TBD'')"

text \<open>
  One round of the loop over the raw matches: the match that is appended, or the
  exception of the first \<^verbatim>\<open>int\<close> that raises (\<^verbatim>\<open>MatchID\<close>, \<^verbatim>\<open>Score1\<close>,
  \<^verbatim>\<open>Score2\<close>, \<^verbatim>\<open>Status\<close> are converted without a guard).
\<close>

definition score_row :: "(int \<times> string) list \<Rightarrow> (int \<times> event) list \<Rightarrow> pydict \<Rightarrow> error + score_match" where
  "score_row ps events_map m =
     (and_then (scores_as_int (py_get m ''Player1ID'')) (\<lambda>p1_id.
      and_then (scores_as_int (py_get m ''Player2ID'')) (\<lambda>p2_id.
      and_then (scores_as_int (py_get m ''EventID'')) (\<lambda>event_id.
         and_then (py_int (py_or (py_get m ''ID'') (JInt 0))) (\<lambda>match_id.
         and_then (py_int (py_or (py_get m ''Score1'') (JInt 0))) (\<lambda>score1.
         and_then (py_int (py_or (py_get m ''Score2'') (JInt 0))) (\<lambda>score2.
         and_then (py_int (py_or (py_get m ''Status'') (JInt 0))) (\<lambda>status.
           Inr \<lparr>sm_MatchID = match_id,
                sm_EventID = event_id,
                sm_EventName = event_field events_map event_id ev_Name,
                sm_EventType = event_field events_map event_id ev_Type,
                sm_EventCity = event_field events_map event_id ev_City,
                sm_Player1ID = p1_id,
                sm_Player1Name = first_pass_name ps p1_id,
                sm_Score1 = score1,
                sm_Player2ID = p2_id,
                sm_Player2Name = first_pass_name ps p2_id,
                sm_Score2 = score2,
                sm_Status = status,
                sm_Unfinished = truthy (py_get m ''Unfinished''),
                sm_ScheduledDate = py_str (py_or (py_get m ''ScheduledDate'') (JStr [])),
                sm_StartDate = py_str (py_or (py_get m ''StartDate'') (JStr [])),
                sm_EndDate = py_str (py_or (py_get m ''EndDate'') (JStr []))\<rparr>))))))))"

fun score_rows :: "(int \<times> string) list \<Rightarrow> (int \<times> event) list \<Rightarrow> pydict list \<Rightarrow> error + score_match list" where
  "score_rows ps events_map [] = Inr []"
| "score_rows ps events_map (m # ms) =
     and_then (score_row ps events_map m) (\<lambda>row.
     and_then (score_rows ps events_map ms) (\<lambda>rows. Inr (row # rows)))"

text \<open>The ids the same loop adds to \<^verbatim>\<open>missing_player_ids\<close>: those that are true and
  no key of the cache. (The set is used only when the loop has ended without an
  exception, so that a player id on which \<^verbatim>\<open>as_int\<close> raises adds nothing here.)\<close>

definition as_int_result :: "error + int option \<Rightarrow> int option" where
  "as_int_result r = (case r of Inr x \<Rightarrow> x | Inl e \<Rightarrow> None)"

definition row_missing :: "(int \<times> string) list \<Rightarrow> pydict \<Rightarrow> int list" where
  "row_missing ps m =
     filter (\<lambda>n. n \<noteq> 0 \<and> map_of ps n = None)
       (List.map_filter (\<lambda>x. x)
          [as_int_result (scores_as_int (py_get m ''Player1ID'')),
           as_int_result (scores_as_int (py_get m ''Player2ID''))])"

definition missing_player_ids :: "(int \<times> string) list \<Rightarrow> pydict list \<Rightarrow> int list" where
  "missing_player_ids ps raw_matches = concat (map (row_missing ps) raw_matches)"

fun current_matches_loop :: "world \<Rightarrow> string list \<Rightarrow> error + pydict list" where
  "current_matches_loop w [] = Inr []"
| "current_matches_loop w (tr # trs) =
     and_then (map_sum id get_current_matches (current_matches_response w tr)) (\<lambda>tour_matches.
     and_then (current_matches_loop w trs) (\<lambda>rest. Inr (tour_matches @ rest)))"

text \<open>The second pass over the matches that are already built.\<close>

definition renamed :: "(int \<times> string) list \<Rightarrow> int option \<Rightarrow> string \<Rightarrow> string" where
  "renamed ps p_id current =
     (if id_truthy p_id
      then (case map_of ps (the p_id) of Some name \<Rightarrow> name | None \<Rightarrow> current)
      else current)"

definition re_resolve :: "(int \<times> string) list \<Rightarrow> score_match \<Rightarrow> score_match" where
  "re_resolve ps match =
     match\<lparr>sm_Player1Name := renamed ps (sm_Player1ID match) (sm_Player1Name match),
           sm_Player2Name := renamed ps (sm_Player2ID match) (sm_Player2Name match)\<rparr>"

text \<open>
  The block under \<^verbatim>\<open>if missing_player_ids:\<close>. Its \<^verbatim>\<open>except Exception\<close> ends the
  block where the exception is raised: a failed fetch leaves everything as it was, a failed
  save leaves the cache updated in memory and the matches as the first pass built them.
\<close>

definition scores_backfill ::
  "world \<Rightarrow> player_cache \<Rightarrow> json \<Rightarrow> score_match list \<Rightarrow> int list
     \<Rightarrow> score_match list \<times> player_cache \<times> json" where
  "scores_backfill w cache store matches missing =
     (if missing = [] then (matches, cache, store)
      else (case paced_player_fetch w (sort (remdups missing)) of
              Inl e \<Rightarrow> (matches, cache, store)
            | Inr players_payload \<Rightarrow>
                (let cache' = cache\<lparr>players := store_names players_payload (players cache)\<rparr>
                 in (case save_player_cache w cache' of
                       Inl e \<Rightarrow> (matches, cache', store)
                     | Inr store' \<Rightarrow> (map (re_resolve (players cache')) matches, cache', store')))))"

text \<open>
  \<^verbatim>\<open>MatchScoresCoordinator._async_update_data\<close>: the published result or
  \<^verbatim>\<open>UpdateFailed\<close>, the player cache and the content of the store after the cycle.
\<close>

definition match_scores_update ::
  "world \<Rightarrow> string list \<Rightarrow> events_result option \<Rightarrow> player_cache \<Rightarrow> json
     \<Rightarrow> (error + scores_result) \<times> player_cache \<times> json" where
  "match_scores_update w tours events_data cache store =
     (case current_matches_loop w tours of
        Inl err \<Rightarrow> (Inl (UpdateFailed err), cache, store)
      | Inr raw_matches \<Rightarrow>
          (case score_rows (players cache) (events_map_of events_data) raw_matches of
             Inl err \<Rightarrow> (Inl (UpdateFailed err), cache, store)
           | Inr matches \<Rightarrow>
               (case scores_backfill w cache store matches
                       (missing_player_ids (players cache) raw_matches) of
                  (matches', cache', store') \<Rightarrow>
                    (Inr \<lparr>sr_count = length matches',
                          sr_matches = sort_key (\<lambda>x. (sm_ScheduledDate x, sm_MatchID x)) matches'\<rparr>,
                     cache', store'))))"

section \<open>The upcoming-matches poller\<close>

record upcoming_match =
  um_Tour :: string
  um_EventID :: "int option"
  um_ScheduledDate :: string
  um_Player1ID :: "int option"
  um_Player2ID :: "int option"

record upcoming_result =
  ur_count :: nat
  ur_matches :: "upcoming_match list"

text \<open>The \<^verbatim>\<open>as_int\<close> of this poller: \<^verbatim>\<open>None\<close> whenever \<^verbatim>\<open>int\<close> raises.\<close>

definition upcoming_as_int :: "json \<Rightarrow> int option" where
  "upcoming_as_int pid = (case py_int pid of Inr n \<Rightarrow> Some n | Inl e \<Rightarrow> None)"

text \<open>\<^verbatim>\<open>[{**match, "Tour": tr} for match in tour_matches]\<close>: a member that is no dict
  cannot be unpacked, which raises \<^verbatim>\<open>TypeError\<close>.\<close>

fun tag_matches :: "string \<Rightarrow> json list \<Rightarrow> error + pydict list" where
  "tag_matches tr [] = Inr []"
| "tag_matches tr (JDict match # ms) =
     and_then (tag_matches tr ms) (\<lambda>rest. Inr (AList.update ''Tour'' (JStr tr) match # rest))"
| "tag_matches tr (v # ms) = Inl TypeError"

fun upcoming_loop :: "world \<Rightarrow> string list \<Rightarrow> error + pydict list" where
  "upcoming_loop w [] = Inr []"
| "upcoming_loop w (tr # trs) =
     and_then (map_sum id get_upcoming_matches (upcoming_response w tr)) (\<lambda>tour_matches.
     and_then (py_iter tour_matches) (\<lambda>members.
     and_then (tag_matches tr members) (\<lambda>tagged.
     and_then (upcoming_loop w trs) (\<lambda>rest. Inr (tagged @ rest)))))"

definition scheduled_of :: "pydict \<Rightarrow> json" where
  "scheduled_of m = py_or (py_or (py_get m ''ScheduledDate'') (py_get m ''StartDate'')) (py_get m ''Date'')"

definition upcoming_row :: "pydict \<Rightarrow> upcoming_match" where
  "upcoming_row m =
     \<lparr>um_Tour = py_str (py_or (py_get m ''Tour'') (JStr [])),
      um_EventID = upcoming_as_int (py_or (py_or (py_get m ''EventID'') (py_get m ''Event'')) (py_get m ''EID'')),
      um_ScheduledDate = py_str (scheduled_of m),
      um_Player1ID = upcoming_as_int (py_or (py_or (py_get m ''Player1ID'') (py_get m ''P1'')) (py_get m ''Player1'')),
      um_Player2ID = upcoming_as_int (py_or (py_or (py_get m ''Player2ID'') (py_get m ''P2'')) (py_get m ''Player2''))\<rparr>"

text \<open>The loop that fills \<^verbatim>\<open>decorated\<close>: a match without a true schedule date is
  passed over.\<close>

definition decorated_of :: "pydict list \<Rightarrow> upcoming_match list" where
  "decorated_of all_matches = map upcoming_row (filter (\<lambda>m. truthy (scheduled_of m)) all_matches)"

definition upcoming_missing :: "(int \<times> string) list \<Rightarrow> upcoming_match list \<Rightarrow> int list" where
  "upcoming_missing ps decorated =
     concat (map (\<lambda>match. filter (\<lambda>n. map_of ps n = None)
                            (List.map_filter (\<lambda>x. x) [um_Player1ID match, um_Player2ID match]))
                 decorated)"

definition upcoming_backfill :: "world \<Rightarrow> player_cache \<Rightarrow> json \<Rightarrow> int list \<Rightarrow> player_cache \<times> json" where
  "upcoming_backfill w cache store missing =
     (if missing = [] then (cache, store)
      else (case paced_player_fetch w (sort (remdups missing)) of
              Inl e \<Rightarrow> (cache, store)
            | Inr players_payload \<Rightarrow>
                (let cache' = cache\<lparr>players := store_names players_payload (players cache)\<rparr>
                 in (case save_player_cache w cache' of
                       Inl e \<Rightarrow> (cache', store)
                     | Inr store' \<Rightarrow> (cache', store')))))"

text \<open>\<^verbatim>\<open>UpcomingMatchesCoordinator._async_update_data\<close>.\<close>

definition upcoming_update ::
  "world \<Rightarrow> string list \<Rightarrow> player_cache \<Rightarrow> json \<Rightarrow> (error + upcoming_result) \<times> player_cache \<times> json" where
  "upcoming_update w tours cache store =
     (case upcoming_loop w tours of
        Inl err \<Rightarrow> (Inl (UpdateFailed err), cache, store)
      | Inr all_matches \<Rightarrow>
          (let decorated = decorated_of all_matches in
           (case upcoming_backfill w cache store (upcoming_missing (players cache) decorated) of
              (cache', store') \<Rightarrow>
                (Inr \<lparr>ur_count = length decorated,
                      ur_matches = sort_key um_ScheduledDate decorated\<rparr>,
                 cache', store'))))"

text \<open>\<^verbatim>\<open>SnookerUpcomingCalendar._resolve_player_name\<close> (calendar.py), which turns the
  player ids of a published upcoming match into names when the calendar is read.\<close>

definition resolve_player_name :: "(int \<times> string) list \<Rightarrow> int option \<Rightarrow> string" where
  "resolve_player_name ps player_id =
     (case player_id of
        None \<Rightarrow> ''TBD''
      | Some pid \<Rightarrow> (case map_of ps pid of Some name \<Rightarrow> name | None \<Rightarrow> ''#'' @ string_of_int pid))"

section \<open>The monthly refresh of the player cache\<close>

definition MONTHLY_REFRESH_DAYS :: int where
  "MONTHLY_REFRESH_DAYS = 30"

text \<open>\<^verbatim>\<open>timedelta(days=d)\<close> in microseconds, and the difference of two points in time.\<close>

definition timedelta_days :: "int \<Rightarrow> int" where
  "timedelta_days d = d * 86400 * 1000000"

fun time_diff :: "datetime \<Rightarrow> datetime \<Rightarrow> error + int" where
  "time_diff (Aware a) (Aware b) = Inr (a - b)"
| "time_diff (Naive a) (Naive b) = Inr (a - b)"
| "time_diff x y = Inl TypeError"

text \<open>
  The guard at the head of \<^verbatim>\<open>maybe_refresh_player_cache_monthly\<close>: whether the
  function returns without refreshing. The subtraction stands outside the \<^verbatim>\<open>try\<close>.
\<close>

definition refresh_skipped :: "world \<Rightarrow> player_cache \<Rightarrow> error + bool" where
  "refresh_skipped w cache =
     (if truthy (last_refreshed cache)
      then (case (case parse_datetime w (last_refreshed cache) of Inl e \<Rightarrow> None | Inr d \<Rightarrow> d) of
              None \<Rightarrow> Inr False
            | Some last_time \<Rightarrow>
                and_then (time_diff (Aware (utcnow w)) last_time)
                  (\<lambda>age. Inr (age < timedelta_days MONTHLY_REFRESH_DAYS)))
      else Inr False)"

fun top100_loop :: "pydict list \<Rightarrow> error + int list" where
  "top100_loop [] = Inr []"
| "top100_loop (r # rs) =
     (let pid = py_get_default r ''PlayerID'' (py_get r ''ID'')
      in if pid = JNull then top100_loop rs
         else and_then (py_int pid) (\<lambda>n.
              and_then (top100_loop rs) (\<lambda>rest. Inr (n # rest))))"

definition top100_ids :: "pydict list \<Rightarrow> error + int list" where
  "top100_ids rankings = top100_loop (take 100 rankings)"

text \<open>The rest of the function, from the request for the current season on: first the
  ids of the players to fetch, then the fetch, the update of the cache and the save.\<close>

definition monthly_ids :: "world \<Rightarrow> error + int list" where
  "monthly_ids w =
     and_then (map_sum id get_current_season (current_season_response w)) (\<lambda>season_payload.
     and_then (extract_season season_payload) (\<lambda>season.
     and_then (map_sum id get_rankings (rankings_response w season RANKING_MONEY)) (\<lambda>rankings.
       top100_ids rankings)))"

definition monthly_refresh_body :: "world \<Rightarrow> player_cache \<Rightarrow> json \<Rightarrow> (error + unit) \<times> player_cache \<times> json" where
  "monthly_refresh_body w cache store =
     (case and_then (monthly_ids w) (paced_player_fetch w) of
        Inl e \<Rightarrow> (Inl e, cache, store)
      | Inr players_payload \<Rightarrow>
          (let cache' = cache\<lparr>players := store_names players_payload (players cache),
                              last_refreshed := JStr (isoformat w (utcnow w))\<rparr>
           in (case save_player_cache w cache' of
                 Inl e \<Rightarrow> (Inl e, cache', store)
               | Inr store' \<Rightarrow> (Inr (), cache', store'))))"

definition maybe_refresh_player_cache_monthly ::
  "world \<Rightarrow> player_cache \<Rightarrow> json \<Rightarrow> (error + unit) \<times> player_cache \<times> json" where
  "maybe_refresh_player_cache_monthly w cache store =
     (case refresh_skipped w cache of
        Inl e \<Rightarrow> (Inl e, cache, store)
      | Inr True \<Rightarrow> (Inr (), cache, store)
      | Inr False \<Rightarrow> monthly_refresh_body w cache store)"

text \<open>A cache without players that was never refreshed.\<close>

definition empty_cache :: player_cache where
  "empty_cache = \<lparr>players = [], last_refreshed = JNull\<rparr>"

text \<open>
  The name a decorated row carries according to the specification: the value of the
  cache for the id of the row, or \<^verbatim>\<open>#\<close> and the id when the id is no key.
\<close>

definition spec_decorated_name :: "(int \<times> string) list \<Rightarrow> int \<Rightarrow> string" where
  "spec_decorated_name ps pid =
     (case map_of ps pid of Some name \<Rightarrow> name | None \<Rightarrow> ''#'' @ string_of_int pid)"



text \<open>Variations of that world: the near-live matches a tour returns; and the upcoming
  matches a tour returns, the response to every player request, and the failure of the
  store on saving, if any.\<close>

definition scores_world :: "json \<Rightarrow> world" where
  "scores_world payload = demo_world\<lparr>current_matches_response := (\<lambda>tour. Inr payload)\<rparr>"

definition upcoming_world :: "json \<Rightarrow> json \<Rightarrow> error option \<Rightarrow> world" where
  "upcoming_world payload player save_error =
     demo_world\<lparr>upcoming_response := (\<lambda>tour. Inr payload),
                 player_response := (\<lambda>pid. Inr player),
                 store_save_error := save_error\<rparr>"


definition with_player :: "json \<Rightarrow> world \<Rightarrow> world" where
  "with_player player w = w\<lparr>player_response := (\<lambda>pid. Inr player)\<rparr>"

section \<open>Theorems\<close>

lemma uncaught_int_error:
  "py_int v = Inl e \<Longrightarrow> \<not> type_or_value_error e \<Longrightarrow> v = JFloat PosInf \<or> v = JFloat NegInf"
  by (cases v rule: py_int.cases) (auto simp: type_or_value_error_def split: option.splits)

lemma extract_season_loop_find:
  "\<forall>k \<in> set ks. py_get p k \<noteq> JFloat PosInf \<and> py_get p k \<noteq> JFloat NegInf \<Longrightarrow>
   extract_season_loop p ks =
     (case find (usable_season_key p) ks of
        Some k \<Rightarrow> py_int (py_get p k)
      | None \<Rightarrow> Inl (NoUsableSeason (map fst p)))"
proof (induction ks)
  case Nil
  show ?case by simp
next
  case (Cons k ks)
  then have ih: "extract_season_loop p ks =
     (case find (usable_season_key p) ks of
        Some k \<Rightarrow> py_int (py_get p k)
      | None \<Rightarrow> Inl (NoUsableSeason (map fst p)))"
    by simp
  have caught: "type_or_value_error e" if "py_int (py_get p k) = Inl e" for e
    using that uncaught_int_error [of "py_get p k" e] Cons.prems by auto
  show ?case
  proof (cases "usable_season_key p k")
    case True
    then show ?thesis
      by (auto simp: usable_season_key_def none_or_empty_def py_get_def py_get_default_def
               split: sum.splits option.splits)
  next
    case False
    show ?thesis
    proof (cases "py_int (py_get p k)")
      case (Inl e)
      with caught [of e] False ih show ?thesis
        by (simp add: Let_def)
    next
      case (Inr n)
      with False have "none_or_empty (py_get p k)"
        by (auto simp: usable_season_key_def none_or_empty_def py_get_def py_get_default_def
            split: option.splits)
      with False ih show ?thesis by (simp add: Let_def)
    qed
  qed
qed

lemma extract_season_without_infinity:
  "\<forall>k \<in> set season_keys. py_get p k \<noteq> JFloat PosInf \<and> py_get p k \<noteq> JFloat NegInf \<Longrightarrow>
   extract_season p =
     (case find (usable_season_key p) [''Season'', ''ID'', ''CurrentSeason'', ''SeasonID''] of
        Some k \<Rightarrow> py_int (py_get p k)
      | None \<Rightarrow> Inl (NoUsableSeason (map fst p)))"
  using extract_season_loop_find [of season_keys p]
  by (simp add: extract_season_def season_keys_def)

lemma extract_season_examples:
  "extract_season [(''SeasonID'', JStr ''55'')] = Inr 55"
  "extract_season [(''Season'', JStr ''n/a''), (''Year'', JInt 2024)]
     = Inl (NoUsableSeason [''Season'', ''Year''])"
  "extract_season [(''Season'', JStr (''2024'' @ [CHR 0x1F])), (''ID'', JInt 7)] = Inr 7"
  by (simp_all add: extract_season_def season_keys_def py_get_def py_get_default_def
      none_or_empty_def int_of_string_def int_strip_def is_int_space_def MAX_STR_DIGITS_def
      type_or_value_error_def parse_nat_def is_digit_def digit_val_def)


lemma float_repr_nonempty: "float_repr f \<noteq> []"
proof (cases f)
  case (Finite m e t)
  then show ?thesis by (cases t) simp
qed simp_all

lemma truthy_str_nonempty: "truthy v \<Longrightarrow> py_str v \<noteq> []"
  by (cases v)
    (auto simp: py_str_def string_of_int_def string_of_nat.simps repr_string_def float_repr_nonempty)

text \<open>
  C5, as the code has it. The name is the text of the first of \<^verbatim>\<open>Name\<close>,
  \<^verbatim>\<open>FullName\<close>, \<^verbatim>\<open>DisplayName\<close> that is present with a true (non-empty) value;
  otherwise the trimmed first name, a space and the trimmed last name, joined and trimmed
  once more as a whole; and when nothing is left of that, \<^verbatim>\<open>Player\<close> followed by the
  text of the \<^verbatim>\<open>ID\<close> field, or by a question mark when the field is absent.
\<close>

theorem player_name_resolution:
  "player_name_from_payload p =
     (case find (\<lambda>key. map_of p key \<noteq> None \<and> truthy (py_get p key))
             [''Name'', ''FullName'', ''DisplayName''] of
        Some key \<Rightarrow> py_str (py_get p key)
      | None \<Rightarrow>
          (let joined = strip (strip (py_str (py_get_default p ''FirstName'' (JStr []))) @ '' '' @
                               strip (py_str (py_get_default p ''LastName'' (JStr []))))
           in if joined \<noteq> [] then joined
              else ''Player '' @ (case map_of p ''ID'' of None \<Rightarrow> ''?'' | Some v \<Rightarrow> py_str v)))
   \<and> player_name_from_payload [(''FirstName'', JStr ''Ronnie''), (''LastName'', JStr ''O'Sullivan'')]
       = ''Ronnie O'Sullivan''
   \<and> player_name_from_payload [(''ID'', JInt 42)] = ''Player 42''"
proof -
  have a: "player_name_from_payload [(''FirstName'', JStr ''Ronnie''), (''LastName'', JStr ''O'Sullivan'')]
       = ''Ronnie O'Sullivan''"
    by (simp add: player_name_from_payload_def name_keys_def py_get_def py_get_default_def
        py_str_def strip_def is_space_def Let_def)
  have b: "player_name_from_payload [(''ID'', JInt 42)] = ''Player 42''"
    by code_simp
  show ?thesis using a b
    by (simp add: player_name_from_payload_def name_keys_def py_get_default_def Let_def
        py_str_def split: option.splits)
qed

theorem player_name_resolution_witness:
  "player_name_from_payload [(''Name'', JStr []), (''FullName'', JStr ''Judd Trump''), (''ID'', JInt 12)]
     = ''Judd Trump''
   \<and> player_name_from_payload [(''FirstName'', JStr '' Mark ''), (''ID'', JInt 17)] = ''Mark''"
  using player_name_resolution [of "[(''Name'', JStr []), (''FullName'', JStr ''Judd Trump''), (''ID'', JInt 12)]"]
    player_name_resolution [of "[(''FirstName'', JStr '' Mark ''), (''ID'', JInt 17)]"]
  by (simp add: py_get_def py_get_default_def py_str_def strip_def is_space_def Let_def)

text \<open>
  The claim C5 as worded gives the untrimmed concatenation: for a payload with a first
  name only, the first name followed by a space. The code returns the bare first name.
\<close>

theorem player_name_trailing_space_counterexample:
  "player_name_from_payload [(''FirstName'', JStr ''Ronnie'')] = ''Ronnie''
   \<and> spec_name_resolution [(''FirstName'', JStr ''Ronnie'')] = ''Ronnie ''"
  by (simp add: player_name_from_payload_def spec_name_resolution_def name_keys_def py_get_def
      py_get_default_def py_str_def strip_def is_space_def Let_def)

lemma find_append_if:
  "find P (xs @ ys) = (case find P xs of None \<Rightarrow> find P ys | Some x \<Rightarrow> Some x)"
  by (induction xs) auto

lemma events_loop_distinct:
  "events_loop raws acc = Inr m \<Longrightarrow> distinct (map fst acc) \<Longrightarrow> distinct (map fst m)"
  by (induction raws acc rule: events_loop.induct) (auto split: if_splits sum.splits simp: distinct_update)

lemma events_loop_keys:
  "events_loop raws acc = Inr m \<Longrightarrow>
     fst ` set m = fst ` set acc \<union> {i. \<exists>v \<in> set raws. event_key v = Some i}"
proof (induction raws acc rule: events_loop.induct)
  case (2 raw raws acc)
  then show ?case
    by (auto split: if_splits sum.splits simp: event_key_def dom_update)
qed auto

lemma events_loop_lookup:
  "events_loop raws acc = Inr m \<Longrightarrow>
     map_of m i =
       (case find (\<lambda>v. event_key v = Some i) (rev raws) of
          Some v \<Rightarrow> event_of v
        | None \<Rightarrow> map_of acc i)"
proof (induction raws acc rule: events_loop.induct)
  case (1 acc)
  then show ?case by simp
next
  case (2 raw raws acc)
  then show ?case
    by (auto split: if_splits sum.splits option.splits simp: event_key_def event_of_def find_append_if update_conv')
qed auto


lemma in_set_update:
  "kv \<in> set (AList.update k v al) \<Longrightarrow> kv = (k, v) \<or> kv \<in> set al"
  by (induction al) (auto split: if_splits)

lemma events_loop_ids:
  "events_loop raws acc = Inr m \<Longrightarrow> \<forall>kv \<in> set acc. ev_ID (snd kv) = fst kv \<Longrightarrow>
     \<forall>kv \<in> set m. ev_ID (snd kv) = fst kv"
proof (induction raws acc rule: events_loop.induct)
  case (2 raw raws acc)
  have step: "\<forall>kv \<in> set (AList.update i (make_event i raw) acc). ev_ID (snd kv) = fst kv" for i
    using "2.prems"(2) by (auto dest!: in_set_update simp: make_event_def)
  show ?case using 2 step
    by (auto split: if_splits sum.splits)
qed auto

lemma events_loop_total:
  "list_all is_object raws \<Longrightarrow>
   \<forall>raw. JDict raw \<in> set raws \<longrightarrow>
     raw_event_id raw \<noteq> JFloat PosInf \<and> raw_event_id raw \<noteq> JFloat NegInf \<Longrightarrow>
   \<exists>m. events_loop raws acc = Inr m"
proof (induction raws acc rule: events_loop.induct)
  case (2 raw raws acc)
  have caught: "type_or_value_error e" if "py_int (raw_event_id raw) = Inl e" for e
    using that uncaught_int_error [of "raw_event_id raw" e] "2.prems"(2) by auto
  from 2 caught show ?case
    by (auto split: sum.splits)
qed (auto simp: is_object_def)

lemma distinct_map_sort_key:
  "distinct (map f (sort_key f xs)) = distinct (map f xs)"
  by (simp add: distinct_map)

lemma events_body_Inr:
  assumes "events_body w season_data tours = Inr r"
  obtains season_payload raws where
    "season_payload_of w season_data = Inr season_payload"
    "extract_season season_payload = Inr (er_season r)"
    "fetch_raw_events w (er_season r) tours = Inr raws"
    "events_loop raws [] = Inr (er_events_by_id r)"
    "er_events r = sort_key ev_ID (map snd (er_events_by_id r))"
    "er_count r = length (er_events r)"
  using assms
  by (auto simp: events_body_def and_then_def Let_def split: sum.splits)

text \<open>
  What the events poller publishes when it publishes: the keys of \<open>events_by_id\<close> are
  exactly the ids that parse from a raw event, each key holds the event built from the
  last raw event with that id, and \<open>events\<close> holds the values of the map sorted
  ascending by id, \<open>count\<close> being its length. It publishes whenever the season resolves
  and every raw event is an object whose id is no float infinity.
\<close>

lemma events_dedup_sorted_when_published:
  "(events_update w season_data tours = Inr r \<longrightarrow>
      (\<exists>raws. fetch_raw_events w (er_season r) tours = Inr raws
         \<and> fst ` set (er_events_by_id r) = {i. \<exists>v \<in> set raws. event_key v = Some i}
         \<and> distinct (map fst (er_events_by_id r))
         \<and> (\<forall>i. map_of (er_events_by_id r) i =
                (case find (\<lambda>v. event_key v = Some i) (rev raws) of
                   Some v \<Rightarrow> event_of v
                 | None \<Rightarrow> None))
         \<and> er_events r = sort_key ev_ID (map snd (er_events_by_id r))
         \<and> sorted (map ev_ID (er_events r))
         \<and> distinct (map ev_ID (er_events r))
         \<and> set (er_events r) = snd ` set (er_events_by_id r)
         \<and> er_count r = length (er_events r)
         \<and> length (er_events r) = length (er_events_by_id r)))
   \<and> (season_payload_of w season_data = Inr season_payload
        \<and> extract_season season_payload = Inr season
        \<and> fetch_raw_events w season tours = Inr raws'
        \<and> list_all is_object raws'
        \<and> (\<forall>raw. JDict raw \<in> set raws' \<longrightarrow>
              raw_event_id raw \<noteq> JFloat PosInf \<and> raw_event_id raw \<noteq> JFloat NegInf)
      \<longrightarrow> (\<exists>r'. events_update w season_data tours = Inr r'))
   \<and> (\<exists>r2. events_update
               (demo_world\<lparr>events_response := (\<lambda>season tour. Inr (JList
                  [JDict [(''ID'', JInt 7), (''Name'', JStr ''Masters'')],
                   JDict [(''ID'', JInt 7), (''Name'', JStr ''The Masters'')]]))\<rparr>)
               None [] = Inr r2
         \<and> map_option ev_Name (map_of (er_events_by_id r2) 7) = Some ''The Masters''
         \<and> length (er_events_by_id r2) = 1
         \<and> length (er_events r2) = 1)"
proof (intro conjI impI)
  assume "events_update w season_data tours = Inr r"
  then have body: "events_body w season_data tours = Inr r"
    by (auto simp: events_update_def split: sum.splits)
  from body obtain season_payload raws where
    f: "fetch_raw_events w (er_season r) tours = Inr raws"
    and l: "events_loop raws [] = Inr (er_events_by_id r)"
    and e: "er_events r = sort_key ev_ID (map snd (er_events_by_id r))"
    and c: "er_count r = length (er_events r)"
    by (rule events_body_Inr)
  have ids: "\<forall>kv \<in> set (er_events_by_id r). ev_ID (snd kv) = fst kv"
    using events_loop_ids [OF l] by simp
  then have m: "map ev_ID (map snd (er_events_by_id r)) = map fst (er_events_by_id r)"
    by simp
  have d: "distinct (map fst (er_events_by_id r))"
    using events_loop_distinct [OF l] by simp
  have k: "fst ` set (er_events_by_id r) = {i. \<exists>v \<in> set raws. event_key v = Some i}"
    using events_loop_keys [OF l] by simp
  have lk: "\<forall>i. map_of (er_events_by_id r) i =
                (case find (\<lambda>v. event_key v = Some i) (rev raws) of
                   Some v \<Rightarrow> event_of v
                 | None \<Rightarrow> None)"
    using events_loop_lookup [OF l] by (auto split: option.splits)
  have d2: "distinct (map ev_ID (er_events r))"
    unfolding e distinct_map_sort_key m by (rule d)
  have s: "sorted (map ev_ID (er_events r))"
    unfolding e by (rule sorted_sort_key)
  show "\<exists>raws. fetch_raw_events w (er_season r) tours = Inr raws
         \<and> fst ` set (er_events_by_id r) = {i. \<exists>v \<in> set raws. event_key v = Some i}
         \<and> distinct (map fst (er_events_by_id r))
         \<and> (\<forall>i. map_of (er_events_by_id r) i =
                (case find (\<lambda>v. event_key v = Some i) (rev raws) of
                   Some v \<Rightarrow> event_of v
                 | None \<Rightarrow> None))
         \<and> er_events r = sort_key ev_ID (map snd (er_events_by_id r))
         \<and> sorted (map ev_ID (er_events r))
         \<and> distinct (map ev_ID (er_events r))
         \<and> set (er_events r) = snd ` set (er_events_by_id r)
         \<and> er_count r = length (er_events r)
         \<and> length (er_events r) = length (er_events_by_id r)"
    using f k d lk e s d2 c by (intro exI [of _ raws]) simp
next
  assume a: "season_payload_of w season_data = Inr season_payload
        \<and> extract_season season_payload = Inr season
        \<and> fetch_raw_events w season tours = Inr raws'
        \<and> list_all is_object raws'
        \<and> (\<forall>raw. JDict raw \<in> set raws' \<longrightarrow>
              raw_event_id raw \<noteq> JFloat PosInf \<and> raw_event_id raw \<noteq> JFloat NegInf)"
  then obtain m where "events_loop raws' [] = Inr m"
    using events_loop_total [of raws' "[]"] by blast
  with a show "\<exists>r'. events_update w season_data tours = Inr r'"
    by (simp add: events_update_def events_body_def and_then_def Let_def)
next
  show "\<exists>r2. events_update
               (demo_world\<lparr>events_response := (\<lambda>season tour. Inr (JList
                  [JDict [(''ID'', JInt 7), (''Name'', JStr ''Masters'')],
                   JDict [(''ID'', JInt 7), (''Name'', JStr ''The Masters'')]]))\<rparr>)
               None [] = Inr r2
         \<and> map_option ev_Name (map_of (er_events_by_id r2) 7) = Some ''The Masters''
         \<and> length (er_events_by_id r2) = 1
         \<and> length (er_events r2) = 1"
    by (simp add: events_update_def events_body_def and_then_def Let_def demo_world_def
        season_payload_of_def get_current_season_def extract_season_def season_keys_def
        py_get_def py_get_default_def none_or_empty_def fetch_raw_events_def
        get_events_in_season_def raw_event_id_def py_or_def make_event_def py_str_def)
qed




lemma the_dicts_all_objects: "JDict d \<in> set xs \<longleftrightarrow> d \<in> set (the_dicts xs)"
  by (induction xs rule: the_dicts.induct) auto

lemma first_dict_shape:
  "first_dict (JList [JDict d]) = d"
  "first_dict (JDict d) = d"
  "first_dict (JList []) = []"
  by simp_all

lemma first_dict_not_object:
  "\<not> is_object v \<Longrightarrow> (\<forall>x xs. v \<noteq> JList (x # xs)) \<Longrightarrow> first_dict v = []"
  by (cases v rule: first_dict.cases) (simp_all add: is_object_def)

lemma as_list_shape:
  "as_list (JDict d) = [d]"
  "set (as_list (JList xs)) = {d. JDict d \<in> set xs}"
  by (simp_all add: the_dicts_all_objects)

text \<open>
  C1 on the code. \<^verbatim>\<open>get_upcoming_matches\<close>, \<^verbatim>\<open>get_events_in_season\<close> and
  \<^verbatim>\<open>get_matches_of_event\<close> return the decoded response as it came: a bare object is
  not wrapped into a list, and a member of a list that is no object stays in it.
\<close>

theorem list_methods_return_raw_payload:
  "get_upcoming_matches (JDict [(''ID'', JInt 1)]) = JDict [(''ID'', JInt 1)]
   \<and> \<not> is_object_list (get_upcoming_matches (JDict [(''ID'', JInt 1)]))
   \<and> get_matches_of_event (JList [JInt 3, JDict [(''ID'', JInt 1)]]) = JList [JInt 3, JDict [(''ID'', JInt 1)]]
   \<and> \<not> is_object_list (get_matches_of_event (JList [JInt 3, JDict [(''ID'', JInt 1)]]))
   \<and> get_events_in_season JNull = JNull
   \<and> \<not> is_object_list (get_events_in_season JNull)
   \<and> get_rankings (JDict [(''ID'', JInt 1)]) = [[(''ID'', JInt 1)]]
   \<and> get_current_matches (JList [JInt 3, JDict [(''ID'', JInt 1)]]) = [[(''ID'', JInt 1)]]"
  by (simp add: get_upcoming_matches_def get_matches_of_event_def get_events_in_season_def
      get_rankings_def get_current_matches_def is_object_list_def is_object_def)

text \<open>
  C2 on the code. The ids of the players and of the event go through \<^verbatim>\<open>as_int\<close>,
  which answers \<^verbatim>\<open>None\<close> for a value that does not parse; \<^verbatim>\<open>MatchID\<close>,
  \<^verbatim>\<open>Score1\<close>, \<^verbatim>\<open>Score2\<close> and \<^verbatim>\<open>Status\<close> go through a bare \<^verbatim>\<open>int\<close>. A raw
  match whose \<^verbatim>\<open>Score1\<close> is the string \<^verbatim>\<open>abc\<close> raises \<^verbatim>\<open>ValueError\<close>, and the
  cycle of the poller ends in \<^verbatim>\<open>UpdateFailed\<close>.
\<close>

theorem match_scores_unguarded_int_raises:
  "score_row [] [] [(''ID'', JInt 1), (''Score1'', JStr ''abc'')] = Inl ValueError
   \<and> match_scores_update
        (scores_world (JList [JDict [(''ID'', JInt 1), (''Score1'', JStr ''abc'')]]))
        [''main''] None empty_cache JNull
      = (Inl (UpdateFailed ValueError), empty_cache, JNull)
   \<and> score_row [] [] [(''ID'', JStr ''n/a'')] = Inl ValueError
   \<and> score_row [] [] [(''Status'', JList [JInt 1])] = Inl TypeError
   \<and> map_sum id sm_Player1ID (score_row [] [] [(''ID'', JInt 1), (''Player1ID'', JStr ''abc'')]) = Inr None"
  by (simp add: score_row_def match_scores_update_def scores_world_def demo_world_def
      empty_cache_def get_current_matches_def and_then_def py_get_def py_get_default_def py_or_def
      scores_as_int_def as_int_result_def type_or_value_error_def none_or_empty_def int_of_string_def int_strip_def is_int_space_def MAX_STR_DIGITS_def
        type_or_value_error_def strip_def is_space_def
      parse_nat_def is_digit_def digit_val_def Let_def)

lemma decorate_rows_nth:
  "decorate_rows ps rows = Inr out \<Longrightarrow>
     length out = length rows \<and>
     (\<forall>i < length rows. \<exists>pid. ranking_pid (rows ! i) = Inr pid \<and>
        out ! i = AList.update ''PlayerName'' (JStr (name_or_hash ps pid)) (rows ! i))"
proof (induction rows arbitrary: out)
  case Nil
  then show ?case by simp
next
  case (Cons r rs)
  from Cons.prems obtain pid out' where
    p: "ranking_pid r = Inr pid" and o: "decorate_rows ps rs = Inr out'"
    and out: "out = AList.update ''PlayerName'' (JStr (name_or_hash ps pid)) r # out'"
    by (auto simp: and_then_def split: sum.splits)
  from Cons.IH [OF o] p out show ?case
    by (auto simp: nth_Cons split: nat.splits)
qed

lemma first_pass_name_nonzero:
  "n \<noteq> 0 \<Longrightarrow> first_pass_name ps (Some n) = spec_decorated_name ps n"
  by (simp add: first_pass_name_def spec_decorated_name_def or_minus_one_def id_truthy_def split: option.splits)

lemma score_row_names:
  "score_row ps em m = Inr row \<Longrightarrow>
     sm_Player1Name row = first_pass_name ps (sm_Player1ID row) \<and>
     sm_Player2Name row = first_pass_name ps (sm_Player2ID row)"
  by (auto simp: score_row_def and_then_def Let_def split: sum.splits)

lemma rankings_update_cache: "snd (rankings_update w season_data cache) = cache"
  by (simp add: rankings_update_def split: sum.splits)

lemma tag_matches_dicts:
  "tag_matches tr (map JDict rows) = Inr (map (AList.update ''Tour'' (JStr tr)) rows)"
  by (induction rows) (simp_all add: and_then_def)

lemma upcoming_loop_rows:
  "\<forall>tr \<in> set tours. upcoming_response w tr = Inr (JList (map JDict (rows tr))) \<Longrightarrow>
     upcoming_loop w tours
       = Inr (concat (map (\<lambda>tr. map (AList.update ''Tour'' (JStr tr)) (rows tr)) tours))"
  by (induction tours) (simp_all add: and_then_def get_upcoming_matches_def tag_matches_dicts)

lemma upcoming_update_result:
  "fst (upcoming_update w tours cache store) =
     (case upcoming_loop w tours of
        Inl err \<Rightarrow> Inl (UpdateFailed err)
      | Inr all_matches \<Rightarrow>
          Inr \<lparr>ur_count = length (decorated_of all_matches),
               ur_matches = sort_key um_ScheduledDate (decorated_of all_matches)\<rparr>)"
  by (simp add: upcoming_update_def Let_def split: sum.splits prod.splits)

text \<open>
  C9. When the upcoming-matches poller publishes, the list holds exactly the normalised
  matches whose schedule date resolves (the first true value of \<^verbatim>\<open>ScheduledDate\<close>,
  \<^verbatim>\<open>StartDate\<close>, \<^verbatim>\<open>Date\<close>); the others are dropped. The list is sorted ascending
  by the schedule-date string in the lexicographic order of strings, and \<open>count\<close> is its
  length. The poller publishes whenever every tour's response is a list of objects. The
  dates \<^verbatim>\<open>2024-05-02\<close>, \<^verbatim>\<open>2024-05-01T10:00\<close>, \<^verbatim>\<open>2024-05-01T09:00\<close> come out as
  the two entries of May 1 in string order and then May 2.
\<close>

theorem upcoming_matches_sorted:
  "(fst (upcoming_update w tours cache store) = Inr r \<longrightarrow>
      (\<exists>all_matches. upcoming_loop w tours = Inr all_matches
         \<and> ur_matches r = sort_key um_ScheduledDate
              (map upcoming_row (filter (\<lambda>m. truthy (scheduled_of m)) all_matches))
         \<and> set (ur_matches r) = upcoming_row ` {m \<in> set all_matches. truthy (scheduled_of m)}
         \<and> (\<forall>x \<in> set (ur_matches r). um_ScheduledDate x \<noteq> [])
         \<and> sorted (map um_ScheduledDate (ur_matches r))
         \<and> ur_count r = length (ur_matches r)))
   \<and> ((\<forall>tr \<in> set tours. upcoming_response w tr = Inr (JList (map JDict (rows tr)))) \<longrightarrow>
        fst (upcoming_update w tours cache store) =
          Inr \<lparr>ur_count = length (decorated_of (concat (map (\<lambda>tr. map (AList.update ''Tour'' (JStr tr)) (rows tr)) tours))),
               ur_matches = sort_key um_ScheduledDate
                 (decorated_of (concat (map (\<lambda>tr. map (AList.update ''Tour'' (JStr tr)) (rows tr)) tours)))\<rparr>)
   \<and> map_sum id (\<lambda>r. (ur_count r, map um_ScheduledDate (ur_matches r)))
        (fst (upcoming_update
           (demo_world\<lparr>upcoming_response := (\<lambda>tour. Inr (JList
              [JDict [(''ScheduledDate'', JStr ''2024-05-02'')],
               JDict [(''ScheduledDate'', JStr ''2024-05-01T10:00'')],
               JDict [(''ID'', JInt 4)],
               JDict [(''ScheduledDate'', JStr ''2024-05-01T09:00'')]]))\<rparr>)
           [''main''] empty_cache JNull))
      = Inr (3, [''2024-05-01T09:00'', ''2024-05-01T10:00'', ''2024-05-02''])"
proof (intro conjI impI)
  assume a: "fst (upcoming_update w tours cache store) = Inr r"
  then obtain all_matches where l: "upcoming_loop w tours = Inr all_matches"
    and r: "r = \<lparr>ur_count = length (decorated_of all_matches),
               ur_matches = sort_key um_ScheduledDate (decorated_of all_matches)\<rparr>"
    by (auto simp: upcoming_update_result split: sum.splits)
  have ne: "\<forall>x \<in> set (ur_matches r). um_ScheduledDate x \<noteq> []"
    using r by (auto simp: decorated_of_def upcoming_row_def truthy_str_nonempty)
  show "\<exists>all_matches. upcoming_loop w tours = Inr all_matches
         \<and> ur_matches r = sort_key um_ScheduledDate
              (map upcoming_row (filter (\<lambda>m. truthy (scheduled_of m)) all_matches))
         \<and> set (ur_matches r) = upcoming_row ` {m \<in> set all_matches. truthy (scheduled_of m)}
         \<and> (\<forall>x \<in> set (ur_matches r). um_ScheduledDate x \<noteq> [])
         \<and> sorted (map um_ScheduledDate (ur_matches r))
         \<and> ur_count r = length (ur_matches r)"
    using l r ne by (intro exI [of _ all_matches]) (simp add: decorated_of_def sorted_sort_key)
next
  assume "\<forall>tr \<in> set tours. upcoming_response w tr = Inr (JList (map JDict (rows tr)))"
  then have "upcoming_loop w tours
       = Inr (concat (map (\<lambda>tr. map (AList.update ''Tour'' (JStr tr)) (rows tr)) tours))"
    by (rule upcoming_loop_rows)
  then show "fst (upcoming_update w tours cache store) =
          Inr \<lparr>ur_count = length (decorated_of (concat (map (\<lambda>tr. map (AList.update ''Tour'' (JStr tr)) (rows tr)) tours))),
               ur_matches = sort_key um_ScheduledDate
                 (decorated_of (concat (map (\<lambda>tr. map (AList.update ''Tour'' (JStr tr)) (rows tr)) tours)))\<rparr>"
    by (simp add: upcoming_update_result)
next
  show "map_sum id (\<lambda>r. (ur_count r, map um_ScheduledDate (ur_matches r)))
        (fst (upcoming_update
           (demo_world\<lparr>upcoming_response := (\<lambda>tour. Inr (JList
              [JDict [(''ScheduledDate'', JStr ''2024-05-02'')],
               JDict [(''ScheduledDate'', JStr ''2024-05-01T10:00'')],
               JDict [(''ID'', JInt 4)],
               JDict [(''ScheduledDate'', JStr ''2024-05-01T09:00'')]]))\<rparr>)
           [''main''] empty_cache JNull))
      = Inr (3, [''2024-05-01T09:00'', ''2024-05-01T10:00'', ''2024-05-02''])"
    by (simp add: upcoming_update_result and_then_def get_upcoming_matches_def
        decorated_of_def scheduled_of_def upcoming_row_def py_or_def py_get_def py_get_default_def
        py_str_def demo_world_def)
qed


theorem upcoming_matches_sorted_witness:
  "\<exists>r. fst (upcoming_update
         (demo_world\<lparr>upcoming_response := (\<lambda>tour. Inr (JList
            [JDict [(''StartDate'', JStr ''2024-06-01''), (''Player1ID'', JInt 5)],
             JDict [(''Date'', JStr ''2024-05-31'')],
             JDict [(''ScheduledDate'', JStr [])]]))\<rparr>)
         [''main'', ''women''] empty_cache JNull) = Inr r
       \<and> sorted (map um_ScheduledDate (ur_matches r))
       \<and> ur_count r = length (ur_matches r)
       \<and> (\<forall>x \<in> set (ur_matches r). um_ScheduledDate x \<noteq> [])"
proof -
  let ?w = "demo_world\<lparr>upcoming_response := (\<lambda>tour. Inr (JList
            [JDict [(''StartDate'', JStr ''2024-06-01''), (''Player1ID'', JInt 5)],
             JDict [(''Date'', JStr ''2024-05-31'')],
             JDict [(''ScheduledDate'', JStr [])]]))\<rparr>"
  have "\<exists>r. fst (upcoming_update ?w [''main'', ''women''] empty_cache JNull) = Inr r"
    by (simp add: upcoming_update_result and_then_def get_upcoming_matches_def)
  then obtain r where run: "fst (upcoming_update ?w [''main'', ''women''] empty_cache JNull) = Inr r" ..
  show ?thesis
    using upcoming_matches_sorted [of ?w "[''main'', ''women'']" empty_cache JNull r] run by blast
qed




lemma store_names_keys:
  "fst ` set (store_names pp ps) = fst ` set ps \<union> fst ` set pp"
  unfolding store_names_def
  by (induction pp arbitrary: ps) (auto simp: dom_update)

lemma store_names_lookup:
  "n \<in> fst ` set pp \<Longrightarrow>
     \<exists>p. (n, p) \<in> set pp \<and> map_of (store_names pp ps) n = Some (player_name_from_payload p)"
  unfolding store_names_def
proof (induction pp arbitrary: ps)
  case Nil
  then show ?case by simp
next
  case (Cons kv pp)
  show ?case
  proof (cases "n \<in> fst ` set pp")
    case True
    from Cons.IH [OF True] show ?thesis by fastforce
  next
    case False
    with Cons.prems have k: "fst kv = n" by auto
    have keep: "map_of (fold (\<lambda>kv. AList.update (fst kv) (player_name_from_payload (snd kv))) pp qs) n
          = map_of qs n" for qs
      using False by (induction pp arbitrary: qs) (auto simp: update_conv')
    show ?thesis
      using k by (intro exI [of _ "snd kv"]) (auto simp: keep update_conv')
  qed
qed

lemma paced_loop_entries:
  "paced_loop w ids out = Inr pp \<Longrightarrow>
     \<forall>kv \<in> set out. \<exists>raw. player_response w (fst kv) = Inr raw \<and> snd kv = get_player raw \<Longrightarrow>
     \<forall>kv \<in> set pp. \<exists>raw. player_response w (fst kv) = Inr raw \<and> snd kv = get_player raw"
proof (induction ids arbitrary: out)
  case Nil
  then show ?case by simp
next
  case (Cons pid ids)
  from Cons.prems(1) obtain payload where
    p: "player_response w pid = Inr payload"
    and l: "paced_loop w ids (AList.update pid (get_player payload) out) = Inr pp"
    by (auto split: sum.splits)
  have "\<forall>kv \<in> set (AList.update pid (get_player payload) out).
          \<exists>raw. player_response w (fst kv) = Inr raw \<and> snd kv = get_player raw"
    using Cons.prems(2) p by (auto dest!: in_set_update)
  from Cons.IH [OF l this] show ?case .
qed

lemma paced_loop_keys:
  "paced_loop w ids out = Inr pp \<Longrightarrow> fst ` set pp = fst ` set out \<union> set ids"
  by (induction ids arbitrary: out) (auto split: sum.splits simp: dom_update)

lemma paced_fetch_entries:
  "paced_player_fetch w ids = Inr pp \<Longrightarrow> (n, p) \<in> set pp \<Longrightarrow>
     \<exists>raw. player_response w n = Inr raw \<and> p = get_player raw"
  using paced_loop_entries [of w ids "[]" pp] by (fastforce simp: paced_player_fetch_def)

lemma paced_fetch_keys:
  "paced_player_fetch w ids = Inr pp \<Longrightarrow> fst ` set pp = set ids"
  using paced_loop_keys [of w ids "[]" pp] by (simp add: paced_player_fetch_def)








lemma store_names_fetched_keys:
  assumes "paced_player_fetch w ids = Inr pp"
  shows "fst ` set (store_names pp ps) \<subseteq> fst ` set ps \<union> {n. \<exists>raw. player_response w n = Inr raw}"
proof
  fix n assume "n \<in> fst ` set (store_names pp ps)"
  then consider "n \<in> fst ` set ps" | "n \<in> fst ` set pp"
    by (auto simp: store_names_keys)
  then show "n \<in> fst ` set ps \<union> {n. \<exists>raw. player_response w n = Inr raw}"
  proof cases
    case 1
    then show ?thesis by simp
  next
    case 2
    then obtain p where "(n, p) \<in> set pp" by auto
    with paced_fetch_entries [OF assms] show ?thesis by blast
  qed
qed

lemma fetched_keys_cases:
  assumes "ps' = ps \<or> (\<exists>ids pp. paced_player_fetch w ids = Inr pp \<and> ps' = store_names pp ps)"
  shows "fst ` set ps' \<subseteq> fst ` set ps \<union> {n. \<exists>raw. player_response w n = Inr raw}"
  using assms store_names_fetched_keys by blast






















lemma missing_player_ids_absent:
  "n \<in> set (missing_player_ids ps raws) \<Longrightarrow> n \<noteq> 0 \<and> map_of ps n = None"
  by (auto simp: missing_player_ids_def row_missing_def)

lemma upcoming_missing_absent:
  "n \<in> set (upcoming_missing ps decorated) \<Longrightarrow> map_of ps n = None"
  by (auto simp: upcoming_missing_def)

lemma score_rows_names:
  "score_rows ps em raws = Inr rows \<Longrightarrow> row \<in> set rows \<Longrightarrow>
     sm_Player1Name row = first_pass_name ps (sm_Player1ID row) \<and>
     sm_Player2Name row = first_pass_name ps (sm_Player2ID row)"
proof (induction raws arbitrary: rows)
  case Nil
  then show ?case by simp
next
  case (Cons m ms)
  from Cons.prems(1) obtain r rs where r: "score_row ps em m = Inr r"
    and rs: "score_rows ps em ms = Inr rs" and rows: "rows = r # rs"
    by (auto simp: and_then_def split: sum.splits)
  show ?case
  proof (cases "row = r")
    case True
    with score_row_names [OF r] show ?thesis by simp
  next
    case False
    with Cons.prems(2) rows have "row \<in> set rs" by simp
    from Cons.IH [OF rs this] show ?thesis .
  qed
qed

lemma first_pass_name_missing:
  "n \<noteq> 0 \<Longrightarrow> map_of ps n = None \<Longrightarrow> first_pass_name ps (Some n) = ''#'' @ string_of_int n"
  by (simp add: first_pass_name_def or_minus_one_def id_truthy_def)

lemma scores_backfill_fetch_fails:
  "missing \<noteq> [] \<Longrightarrow> paced_player_fetch w (sort (remdups missing)) = Inl e \<Longrightarrow>
     scores_backfill w cache store matches missing = (matches, cache, store)"
  by (simp add: scores_backfill_def)

lemma scores_backfill_save_fails:
  "missing \<noteq> [] \<Longrightarrow> paced_player_fetch w (sort (remdups missing)) = Inr pp \<Longrightarrow>
     store_save_error w = Some e \<Longrightarrow>
     scores_backfill w cache store matches missing
       = (matches, cache\<lparr>players := store_names pp (players cache)\<rparr>, store)"
  by (simp add: scores_backfill_def save_player_cache_def Let_def)

lemma upcoming_backfill_fetch_fails:
  "missing \<noteq> [] \<Longrightarrow> paced_player_fetch w (sort (remdups missing)) = Inl e \<Longrightarrow>
     upcoming_backfill w cache store missing = (cache, store)"
  by (simp add: upcoming_backfill_def)

lemma upcoming_backfill_save_fails:
  "missing \<noteq> [] \<Longrightarrow> paced_player_fetch w (sort (remdups missing)) = Inr pp \<Longrightarrow>
     store_save_error w = Some e \<Longrightarrow>
     upcoming_backfill w cache store missing
       = (cache\<lparr>players := store_names pp (players cache)\<rparr>, store)"
  by (simp add: upcoming_backfill_def save_player_cache_def Let_def)

lemma fetched_name_resolved:
  assumes f: "paced_player_fetch w ids = Inr pp" and n: "n \<in> set ids"
  shows "\<exists>raw. player_response w n = Inr raw \<and>
           resolve_player_name (store_names pp ps) (Some n) = player_name_from_payload (get_player raw)"
proof -
  from paced_fetch_keys [OF f] n have "n \<in> fst ` set pp" by simp
  from store_names_lookup [OF this] obtain p where
    p: "(n, p) \<in> set pp" and m: "map_of (store_names pp ps) n = Some (player_name_from_payload p)"
    by blast
  from paced_fetch_entries [OF f p] obtain raw where
    "player_response w n = Inr raw" "p = get_player raw" by blast
  with m show ?thesis by (auto simp: resolve_player_name_def)
qed

lemma missing_row_placeholder:
  assumes "score_rows ps em raws = Inr rows" "row \<in> set rows"
    and "n \<in> set (missing_player_ids ps raws)"
  shows "(sm_Player1ID row = Some n \<longrightarrow> sm_Player1Name row = ''#'' @ string_of_int n)
       \<and> (sm_Player2ID row = Some n \<longrightarrow> sm_Player2Name row = ''#'' @ string_of_int n)"
  using score_rows_names [OF assms(1,2)] missing_player_ids_absent [OF assms(3)]
  by (simp add: first_pass_name_missing)

text \<open>
  C8, as the code has it. When the paced fetch of a backfill raises, the cycle of either
  poller still publishes and leaves cache and store as they were: the match-scores result
  names every missing player \<^verbatim>\<open>#\<close> with the id, and the ids of the upcoming-matches
  result, which carries no names, are rendered so by the calendar. When the fetch
  succeeds and saving raises, the cycle still publishes; the match-scores result keeps
  the placeholders of the first pass, but the cache in memory already holds the fetched
  names, so that the ids of the upcoming-matches result are rendered with these names.
\<close>

theorem backfill_failure_contained:
  "(current_matches_loop w tours = Inr raws
      \<and> score_rows (players cache) (events_map_of events_data) raws = Inr rows
      \<and> missing_player_ids (players cache) raws \<noteq> []
      \<and> paced_player_fetch w (sort (remdups (missing_player_ids (players cache) raws))) = Inl e
    \<longrightarrow> match_scores_update w tours events_data cache store
          = (Inr \<lparr>sr_count = length rows,
                  sr_matches = sort_key (\<lambda>x. (sm_ScheduledDate x, sm_MatchID x)) rows\<rparr>,
             cache, store))
   \<and> (current_matches_loop w tours = Inr raws
      \<and> score_rows (players cache) (events_map_of events_data) raws = Inr rows
      \<and> missing_player_ids (players cache) raws \<noteq> []
      \<and> paced_player_fetch w (sort (remdups (missing_player_ids (players cache) raws))) = Inr pp
      \<and> store_save_error w = Some e
    \<longrightarrow> match_scores_update w tours events_data cache store
          = (Inr \<lparr>sr_count = length rows,
                  sr_matches = sort_key (\<lambda>x. (sm_ScheduledDate x, sm_MatchID x)) rows\<rparr>,
             cache\<lparr>players := store_names pp (players cache)\<rparr>, store))
   \<and> (score_rows (players cache) (events_map_of events_data) raws = Inr rows
      \<and> row \<in> set rows \<and> n \<in> set (missing_player_ids (players cache) raws)
    \<longrightarrow> (sm_Player1ID row = Some n \<longrightarrow> sm_Player1Name row = ''#'' @ string_of_int n)
        \<and> (sm_Player2ID row = Some n \<longrightarrow> sm_Player2Name row = ''#'' @ string_of_int n))
   \<and> (upcoming_loop w tours = Inr all_matches
      \<and> upcoming_missing (players cache) (decorated_of all_matches) \<noteq> []
      \<and> paced_player_fetch w (sort (remdups (upcoming_missing (players cache) (decorated_of all_matches)))) = Inl e
    \<longrightarrow> upcoming_update w tours cache store
          = (Inr \<lparr>ur_count = length (decorated_of all_matches),
                  ur_matches = sort_key um_ScheduledDate (decorated_of all_matches)\<rparr>,
             cache, store))
   \<and> (n \<in> set (upcoming_missing (players cache) decorated)
    \<longrightarrow> resolve_player_name (players cache) (Some n) = ''#'' @ string_of_int n)
   \<and> (upcoming_loop w tours = Inr all_matches
      \<and> upcoming_missing (players cache) (decorated_of all_matches) \<noteq> []
      \<and> paced_player_fetch w (sort (remdups (upcoming_missing (players cache) (decorated_of all_matches)))) = Inr pp
      \<and> store_save_error w = Some e
    \<longrightarrow> upcoming_update w tours cache store
          = (Inr \<lparr>ur_count = length (decorated_of all_matches),
                  ur_matches = sort_key um_ScheduledDate (decorated_of all_matches)\<rparr>,
             cache\<lparr>players := store_names pp (players cache)\<rparr>, store)
        \<and> (\<forall>k \<in> set (upcoming_missing (players cache) (decorated_of all_matches)).
             \<exists>raw. player_response w k = Inr raw
               \<and> resolve_player_name (store_names pp (players cache)) (Some k)
                   = player_name_from_payload (get_player raw)))"
proof (intro conjI impI)
  assume "current_matches_loop w tours = Inr raws
      \<and> score_rows (players cache) (events_map_of events_data) raws = Inr rows
      \<and> missing_player_ids (players cache) raws \<noteq> []
      \<and> paced_player_fetch w (sort (remdups (missing_player_ids (players cache) raws))) = Inl e"
  then show "match_scores_update w tours events_data cache store
          = (Inr \<lparr>sr_count = length rows,
                  sr_matches = sort_key (\<lambda>x. (sm_ScheduledDate x, sm_MatchID x)) rows\<rparr>,
             cache, store)"
    by (simp add: match_scores_update_def scores_backfill_fetch_fails)
next
  assume "current_matches_loop w tours = Inr raws
      \<and> score_rows (players cache) (events_map_of events_data) raws = Inr rows
      \<and> missing_player_ids (players cache) raws \<noteq> []
      \<and> paced_player_fetch w (sort (remdups (missing_player_ids (players cache) raws))) = Inr pp
      \<and> store_save_error w = Some e"
  then show "match_scores_update w tours events_data cache store
          = (Inr \<lparr>sr_count = length rows,
                  sr_matches = sort_key (\<lambda>x. (sm_ScheduledDate x, sm_MatchID x)) rows\<rparr>,
             cache\<lparr>players := store_names pp (players cache)\<rparr>, store)"
    by (simp add: match_scores_update_def scores_backfill_save_fails)
next
  assume "score_rows (players cache) (events_map_of events_data) raws = Inr rows
      \<and> row \<in> set rows \<and> n \<in> set (missing_player_ids (players cache) raws)"
    and "sm_Player1ID row = Some n"
  then show "sm_Player1Name row = ''#'' @ string_of_int n"
    using missing_row_placeholder [of "players cache" "events_map_of events_data" raws rows row n]
    by simp
next
  assume "score_rows (players cache) (events_map_of events_data) raws = Inr rows
      \<and> row \<in> set rows \<and> n \<in> set (missing_player_ids (players cache) raws)"
    and "sm_Player2ID row = Some n"
  then show "sm_Player2Name row = ''#'' @ string_of_int n"
    using missing_row_placeholder [of "players cache" "events_map_of events_data" raws rows row n]
    by simp
next
  assume "upcoming_loop w tours = Inr all_matches
      \<and> upcoming_missing (players cache) (decorated_of all_matches) \<noteq> []
      \<and> paced_player_fetch w (sort (remdups (upcoming_missing (players cache) (decorated_of all_matches)))) = Inl e"
  then show "upcoming_update w tours cache store
          = (Inr \<lparr>ur_count = length (decorated_of all_matches),
                  ur_matches = sort_key um_ScheduledDate (decorated_of all_matches)\<rparr>,
             cache, store)"
    by (simp add: upcoming_update_def Let_def upcoming_backfill_fetch_fails)
next
  assume "n \<in> set (upcoming_missing (players cache) decorated)"
  then have "map_of (players cache) n = None" by (rule upcoming_missing_absent)
  then show "resolve_player_name (players cache) (Some n) = ''#'' @ string_of_int n"
    by (simp add: resolve_player_name_def)
next
  assume a: "upcoming_loop w tours = Inr all_matches
      \<and> upcoming_missing (players cache) (decorated_of all_matches) \<noteq> []
      \<and> paced_player_fetch w (sort (remdups (upcoming_missing (players cache) (decorated_of all_matches)))) = Inr pp
      \<and> store_save_error w = Some e"
  then show "upcoming_update w tours cache store
          = (Inr \<lparr>ur_count = length (decorated_of all_matches),
                  ur_matches = sort_key um_ScheduledDate (decorated_of all_matches)\<rparr>,
             cache\<lparr>players := store_names pp (players cache)\<rparr>, store)"
    by (simp add: upcoming_update_def Let_def upcoming_backfill_save_fails)
  show "\<forall>k \<in> set (upcoming_missing (players cache) (decorated_of all_matches)).
             \<exists>raw. player_response w k = Inr raw
               \<and> resolve_player_name (store_names pp (players cache)) (Some k)
                   = player_name_from_payload (get_player raw)"
  proof
    fix k assume "k \<in> set (upcoming_missing (players cache) (decorated_of all_matches))"
    then have "k \<in> set (sort (remdups (upcoming_missing (players cache) (decorated_of all_matches))))"
      by simp
    with a show "\<exists>raw. player_response w k = Inr raw
               \<and> resolve_player_name (store_names pp (players cache)) (Some k)
                   = player_name_from_payload (get_player raw)"
      using fetched_name_resolved by blast
  qed
qed

text \<open>
  The claim C8 as worded fails for the upcoming-matches poller when saving raises:
  player 5 was missing, the cycle publishes, and the player is rendered as
  \<^verbatim>\<open>Ronnie\<close>, not as \<^verbatim>\<open>#5\<close>.
\<close>

theorem backfill_persist_failure_counterexample:
  "upcoming_update
     (upcoming_world
        (JList [JDict [(''ScheduledDate'', JStr ''2024-05-01''), (''Player1ID'', JInt 5)]])
        (JDict [(''Name'', JStr ''Ronnie'')])
        (Some StoreError))
     [''main''] empty_cache JNull
   = (Inr \<lparr>ur_count = 1,
           ur_matches = [\<lparr>um_Tour = ''main'', um_EventID = None, um_ScheduledDate = ''2024-05-01'',
                          um_Player1ID = Some 5, um_Player2ID = None\<rparr>]\<rparr>,
      \<lparr>players = [(5, ''Ronnie'')], last_refreshed = JNull\<rparr>, JNull)
   \<and> resolve_player_name [(5, ''Ronnie'')] (Some 5) = ''Ronnie''
   \<and> ''Ronnie'' \<noteq> ''#'' @ string_of_int 5"
  by (simp add: upcoming_update_def upcoming_world_def demo_world_def and_then_def
      get_upcoming_matches_def decorated_of_def scheduled_of_def upcoming_row_def py_or_def py_get_def py_get_default_def
      py_str_def upcoming_as_int_def upcoming_missing_def List.map_filter_def empty_cache_def
      upcoming_backfill_def paced_player_fetch_def get_player_def store_names_def
      player_name_from_payload_def name_keys_def save_player_cache_def resolve_player_name_def
      Let_def)


theorem backfill_failure_contained_witness:
  "\<exists>rows. match_scores_update
        (demo_world\<lparr>current_matches_response :=
           (\<lambda>tour. Inr (JList [JDict [(''ID'', JInt 1), (''Player1ID'', JInt 5)]])),
           player_response := (\<lambda>pid. Inl FetchError)\<rparr>)
        [''main''] None empty_cache JNull
      = (Inr \<lparr>sr_count = length rows,
              sr_matches = sort_key (\<lambda>x. (sm_ScheduledDate x, sm_MatchID x)) rows\<rparr>,
         empty_cache, JNull)
      \<and> map sm_Player1Name rows = [''#5'']"
proof -
  let ?w = "demo_world\<lparr>current_matches_response :=
           (\<lambda>tour. Inr (JList [JDict [(''ID'', JInt 1), (''Player1ID'', JInt 5)]])),
           player_response := (\<lambda>pid. Inl FetchError)\<rparr>"
  let ?raws = "[[(''ID'', JInt 1), (''Player1ID'', JInt 5)]]"
  have l: "current_matches_loop ?w [''main''] = Inr ?raws"
    by (simp add: and_then_def get_current_matches_def)
  obtain row where row: "score_row [] [] [(''ID'', JInt 1), (''Player1ID'', JInt 5)] = Inr row"
    by (simp add: score_row_def and_then_def py_get_def py_get_default_def py_or_def Let_def
        scores_as_int_def none_or_empty_def)
  then have rows: "score_rows (players empty_cache) (events_map_of None) ?raws = Inr [row]"
    by (simp add: and_then_def empty_cache_def events_map_of_def)
  have p1: "sm_Player1ID row = Some 5"
    using row by (auto simp: score_row_def and_then_def py_get_def py_get_default_def py_or_def
        Let_def scores_as_int_def as_int_result_def type_or_value_error_def none_or_empty_def)
  have m: "missing_player_ids (players empty_cache) ?raws = [5]"
    by (simp add: missing_player_ids_def row_missing_def List.map_filter_def py_get_def
        py_get_default_def scores_as_int_def as_int_result_def type_or_value_error_def none_or_empty_def empty_cache_def)
  have f: "paced_player_fetch ?w (sort (remdups (missing_player_ids (players empty_cache) ?raws))) = Inl FetchError"
    by (simp add: m paced_player_fetch_def)
  have s5: "string_of_int 5 = ''5''" by code_simp
  note t = backfill_failure_contained [where w = ?w and tours = "[''main'']" and raws = ?raws
      and cache = empty_cache and events_data = None and rows = "[row]" and e = FetchError
      and store = JNull and row = row and n = 5]
  from t l rows m f have A: "match_scores_update ?w [''main''] None empty_cache JNull
      = (Inr \<lparr>sr_count = length [row],
              sr_matches = sort_key (\<lambda>x. (sm_ScheduledDate x, sm_MatchID x)) [row]\<rparr>,
         empty_cache, JNull)"
    by simp
  from t rows m p1 s5 have B: "sm_Player1Name row = ''#5''"
    by simp
  from A B show ?thesis by (intro exI [of _ "[row]"]) simp
qed

lemma renamed_spec:
  "n \<noteq> 0 \<Longrightarrow> (map_of ps' n = None \<longrightarrow> map_of ps n = None) \<Longrightarrow>
     renamed ps' (Some n) (spec_decorated_name ps n) = spec_decorated_name ps' n"
  by (auto simp: renamed_def spec_decorated_name_def id_truthy_def split: option.splits)

lemma store_names_keeps_keys:
  "map_of (store_names pp ps) n = None \<Longrightarrow> map_of ps n = None"
  using store_names_keys [of pp ps] by (auto simp: map_of_eq_None_iff)

lemma scores_backfill_rows:
  assumes "scores_backfill w cache store rows missing = (rows', cache', store')"
  shows "(rows' = rows \<and> (store_save_error w = None \<longrightarrow> players cache' = players cache))
       \<or> (store_save_error w = None \<and> rows' = map (re_resolve (players cache')) rows
          \<and> (\<exists>pp. players cache' = store_names pp (players cache)))"
proof (cases "missing = []")
  case True
  then show ?thesis using assms by (simp add: scores_backfill_def)
next
  case False
  show ?thesis
  proof (cases "paced_player_fetch w (sort (remdups missing))")
    case (Inl e)
    with False show ?thesis using assms by (simp add: scores_backfill_def)
  next
    case (Inr pp)
    show ?thesis
    proof (cases "store_save_error w")
      case None
      with False Inr assms have "rows' = map (re_resolve (players cache')) rows"
        and "players cache' = store_names pp (players cache)"
        by (auto simp: scores_backfill_def save_player_cache_def Let_def)
      with None show ?thesis by blast
    next
      case (Some e)
      with False Inr assms have "rows' = rows"
        by (auto simp: scores_backfill_def save_player_cache_def Let_def)
      with Some show ?thesis by simp
    qed
  qed
qed

lemma match_scores_update_Inr:
  assumes "match_scores_update w tours events_data cache store = (Inr r, cache', store')"
  obtains raws rows rows' where
    "current_matches_loop w tours = Inr raws"
    "score_rows (players cache) (events_map_of events_data) raws = Inr rows"
    "scores_backfill w cache store rows (missing_player_ids (players cache) raws)
       = (rows', cache', store')"
    "sr_matches r = sort_key (\<lambda>x. (sm_ScheduledDate x, sm_MatchID x)) rows'"
  using assms
  by (auto simp: match_scores_update_def split: sum.splits prod.splits)

lemma published_names:
  assumes upd: "match_scores_update w tours events_data cache store = (Inr r, cache', store')"
    and row: "row \<in> set (sr_matches r)" and n: "n \<noteq> 0"
  shows "store_save_error w = None \<Longrightarrow>
           (sm_Player1ID row = Some n \<longrightarrow> sm_Player1Name row = spec_decorated_name (players cache') n)
         \<and> (sm_Player2ID row = Some n \<longrightarrow> sm_Player2Name row = spec_decorated_name (players cache') n)"
    and "store_save_error w \<noteq> None \<Longrightarrow>
           (sm_Player1ID row = Some n \<longrightarrow> sm_Player1Name row = spec_decorated_name (players cache) n)
         \<and> (sm_Player2ID row = Some n \<longrightarrow> sm_Player2Name row = spec_decorated_name (players cache) n)"
proof -
  from upd obtain raws rows rows' where
    rows: "score_rows (players cache) (events_map_of events_data) raws = Inr rows"
    and b: "scores_backfill w cache store rows (missing_player_ids (players cache) raws)
       = (rows', cache', store')"
    and s: "sr_matches r = sort_key (\<lambda>x. (sm_ScheduledDate x, sm_MatchID x)) rows'"
    by (rule match_scores_update_Inr)
  from row s have in_rows': "row \<in> set rows'" by simp
  have first: "(sm_Player1ID x = Some n \<longrightarrow> sm_Player1Name x = spec_decorated_name (players cache) n)
         \<and> (sm_Player2ID x = Some n \<longrightarrow> sm_Player2Name x = spec_decorated_name (players cache) n)"
    if "x \<in> set rows" for x
    using score_rows_names [OF rows that] n by (auto simp: first_pass_name_nonzero)
  from scores_backfill_rows [OF b] consider
    (same) "rows' = rows" "store_save_error w = None \<longrightarrow> players cache' = players cache"
    | (resolved) pp where "store_save_error w = None" "rows' = map (re_resolve (players cache')) rows"
        "players cache' = store_names pp (players cache)"
    by blast
  then have both: "(store_save_error w = None \<longrightarrow>
           (sm_Player1ID row = Some n \<longrightarrow> sm_Player1Name row = spec_decorated_name (players cache') n)
         \<and> (sm_Player2ID row = Some n \<longrightarrow> sm_Player2Name row = spec_decorated_name (players cache') n))
       \<and> (store_save_error w \<noteq> None \<longrightarrow>
           (sm_Player1ID row = Some n \<longrightarrow> sm_Player1Name row = spec_decorated_name (players cache) n)
         \<and> (sm_Player2ID row = Some n \<longrightarrow> sm_Player2Name row = spec_decorated_name (players cache) n))"
  proof cases
    case same
    with in_rows' first [of row] show ?thesis by auto
  next
    case resolved
    from resolved(2) in_rows' obtain x where x: "x \<in> set rows" and rx: "row = re_resolve (players cache') x"
      by auto
    have keep: "map_of (players cache') n = None \<longrightarrow> map_of (players cache) n = None"
      using resolved(3) store_names_keeps_keys by simp
    from first [OF x] rx renamed_spec [OF n keep] resolved(1) show ?thesis
      by (auto simp: re_resolve_def)
  qed
  show "store_save_error w = None \<Longrightarrow>
           (sm_Player1ID row = Some n \<longrightarrow> sm_Player1Name row = spec_decorated_name (players cache') n)
         \<and> (sm_Player2ID row = Some n \<longrightarrow> sm_Player2Name row = spec_decorated_name (players cache') n)"
    using both by blast
  show "store_save_error w \<noteq> None \<Longrightarrow>
           (sm_Player1ID row = Some n \<longrightarrow> sm_Player1Name row = spec_decorated_name (players cache) n)
         \<and> (sm_Player2ID row = Some n \<longrightarrow> sm_Player2Name row = spec_decorated_name (players cache) n)"
    using both by blast
qed

text \<open>
  C6, as the code has it. The rankings poller decorates the first ten rows in the order
  of the provider: each gets \<^verbatim>\<open>PlayerName\<close>, which is the name the cache holds for the
  id of the row when that name is not empty, and \<^verbatim>\<open>#\<close> with the id otherwise; the
  cache is left as it was. A row that the match-scores poller publishes, with a player id
  other than 0, carries the name that the cache holds for the id when the cycle ends,
  that is after the backfill, or \<^verbatim>\<open>#\<close> with the id when the id is no key then; when the
  store fails on saving, the row carries instead the name of the first pass, taken from
  the cache as it was when the cycle began.
\<close>

theorem decorated_names:
  "(decorate ps rows = Inr out \<longrightarrow>
      length out = min 10 (length rows)
      \<and> (\<forall>i < length out. \<exists>pid. ranking_pid (rows ! i) = Inr pid
            \<and> out ! i = AList.update ''PlayerName'' (JStr (name_or_hash ps pid)) (rows ! i)))
   \<and> (map_of ps pid = Some name \<and> name \<noteq> [] \<longrightarrow> name_or_hash ps pid = name)
   \<and> (map_of ps pid = None \<or> map_of ps pid = Some [] \<longrightarrow> name_or_hash ps pid = ''#'' @ string_of_int pid)
   \<and> snd (rankings_update w season_data cache) = cache
   \<and> (match_scores_update w tours events_data cache store = (Inr r, cache', store')
        \<and> store_save_error w = None \<and> row \<in> set (sr_matches r) \<and> n \<noteq> 0 \<longrightarrow>
        (sm_Player1ID row = Some n \<longrightarrow>
           sm_Player1Name row =
             (case map_of (players cache') n of Some v \<Rightarrow> v | None \<Rightarrow> ''#'' @ string_of_int n))
        \<and> (sm_Player2ID row = Some n \<longrightarrow>
           sm_Player2Name row =
             (case map_of (players cache') n of Some v \<Rightarrow> v | None \<Rightarrow> ''#'' @ string_of_int n)))
   \<and> (match_scores_update w tours events_data cache store = (Inr r, cache', store')
        \<and> store_save_error w \<noteq> None \<and> row \<in> set (sr_matches r) \<and> n \<noteq> 0 \<longrightarrow>
        (sm_Player1ID row = Some n \<longrightarrow>
           sm_Player1Name row =
             (case map_of (players cache) n of Some v \<Rightarrow> v | None \<Rightarrow> ''#'' @ string_of_int n))
        \<and> (sm_Player2ID row = Some n \<longrightarrow>
           sm_Player2Name row =
             (case map_of (players cache) n of Some v \<Rightarrow> v | None \<Rightarrow> ''#'' @ string_of_int n)))"
proof -
  have D: "decorate ps rows = Inr out \<longrightarrow>
      length out = min 10 (length rows)
      \<and> (\<forall>i < length out. \<exists>pid. ranking_pid (rows ! i) = Inr pid
            \<and> out ! i = AList.update ''PlayerName'' (JStr (name_or_hash ps pid)) (rows ! i))"
  proof
    assume d: "decorate ps rows = Inr out"
    then have l: "length out = length (take 10 rows)"
      and n: "\<forall>i < length (take 10 rows). \<exists>pid. ranking_pid (take 10 rows ! i) = Inr pid \<and>
          out ! i = AList.update ''PlayerName'' (JStr (name_or_hash ps pid)) (take 10 rows ! i)"
      using decorate_rows_nth [of ps "take 10 rows" out] by (simp_all add: decorate_def)
    have "length out = min 10 (length rows)" using l by (simp add: min.commute)
    moreover have "\<forall>i < length out. \<exists>pid. ranking_pid (rows ! i) = Inr pid
            \<and> out ! i = AList.update ''PlayerName'' (JStr (name_or_hash ps pid)) (rows ! i)"
      using l n by simp
    ultimately show "length out = min 10 (length rows)
      \<and> (\<forall>i < length out. \<exists>pid. ranking_pid (rows ! i) = Inr pid
            \<and> out ! i = AList.update ''PlayerName'' (JStr (name_or_hash ps pid)) (rows ! i))"
      by simp
  qed
  have N1: "map_of ps pid = Some name \<and> name \<noteq> [] \<longrightarrow> name_or_hash ps pid = name"
    by (simp add: name_or_hash_def)
  have N2: "map_of ps pid = None \<or> map_of ps pid = Some [] \<longrightarrow>
      name_or_hash ps pid = ''#'' @ string_of_int pid"
    by (auto simp: name_or_hash_def)
  have R: "snd (rankings_update w season_data cache) = cache"
    by (rule rankings_update_cache)
  have P1: "match_scores_update w tours events_data cache store = (Inr r, cache', store')
        \<and> store_save_error w = None \<and> row \<in> set (sr_matches r) \<and> n \<noteq> 0 \<longrightarrow>
        (sm_Player1ID row = Some n \<longrightarrow>
           sm_Player1Name row =
             (case map_of (players cache') n of Some v \<Rightarrow> v | None \<Rightarrow> ''#'' @ string_of_int n))
        \<and> (sm_Player2ID row = Some n \<longrightarrow>
           sm_Player2Name row =
             (case map_of (players cache') n of Some v \<Rightarrow> v | None \<Rightarrow> ''#'' @ string_of_int n))"
    using published_names(1) [of w tours events_data cache store r cache' store' row n]
    by (simp add: spec_decorated_name_def)
  have P2: "match_scores_update w tours events_data cache store = (Inr r, cache', store')
        \<and> store_save_error w \<noteq> None \<and> row \<in> set (sr_matches r) \<and> n \<noteq> 0 \<longrightarrow>
        (sm_Player1ID row = Some n \<longrightarrow>
           sm_Player1Name row =
             (case map_of (players cache) n of Some v \<Rightarrow> v | None \<Rightarrow> ''#'' @ string_of_int n))
        \<and> (sm_Player2ID row = Some n \<longrightarrow>
           sm_Player2Name row =
             (case map_of (players cache) n of Some v \<Rightarrow> v | None \<Rightarrow> ''#'' @ string_of_int n))"
    using published_names(2) [of w tours events_data cache store r cache' store' row n]
    by (simp add: spec_decorated_name_def)
  from D N1 N2 R P1 P2 show ?thesis by (intro conjI)
qed

text \<open>
  The claim C6 as worded fails for a match row with player id 0, which is absent from
  the cache and is named \<^verbatim>\<open>TBD\<close>; for a ranking row whose id the cache maps to the
  empty name, which is named \<^verbatim>\<open>#5\<close>; and for a published match row whose player 5 was
  absent from the cache when the cycle began and is named \<^verbatim>\<open>Ronnie\<close> by the backfill.
\<close>

theorem decorated_names_counterexample:
  "score_row [] [] [(''Player1ID'', JInt 0)]
     = Inr \<lparr>sm_MatchID = 0, sm_EventID = None, sm_EventName = [], sm_EventType = [],
            sm_EventCity = [], sm_Player1ID = Some 0, sm_Player1Name = ''TBD'', sm_Score1 = 0,
            sm_Player2ID = None, sm_Player2Name = ''TBD'', sm_Score2 = 0, sm_Status = 0,
            sm_Unfinished = False, sm_ScheduledDate = [], sm_StartDate = [], sm_EndDate = []\<rparr>
   \<and> spec_decorated_name [] 0 = ''#0''
   \<and> decorate [(5, [])] [[(''PlayerID'', JInt 5)]] = Inr [[(''PlayerID'', JInt 5), (''PlayerName'', JStr ''#5'')]]
   \<and> spec_decorated_name [(5, [])] 5 = []
   \<and> fst (match_scores_update
        (with_player (JDict [(''Name'', JStr ''Ronnie'')])
           (scores_world (JList [JDict [(''ID'', JInt 1), (''Player1ID'', JInt 5)]])))
        [''main''] None empty_cache JNull)
      = Inr \<lparr>sr_count = 1,
             sr_matches =
               [\<lparr>sm_MatchID = 1, sm_EventID = None, sm_EventName = [], sm_EventType = [],
                 sm_EventCity = [], sm_Player1ID = Some 5, sm_Player1Name = ''Ronnie'', sm_Score1 = 0,
                 sm_Player2ID = None, sm_Player2Name = ''TBD'', sm_Score2 = 0, sm_Status = 0,
                 sm_Unfinished = False, sm_ScheduledDate = [], sm_StartDate = [], sm_EndDate = []\<rparr>]\<rparr>
   \<and> spec_decorated_name (players empty_cache) 5 = ''#5''"
proof -
  have a: "score_row [] [] [(''Player1ID'', JInt 0)]
     = Inr \<lparr>sm_MatchID = 0, sm_EventID = None, sm_EventName = [], sm_EventType = [],
            sm_EventCity = [], sm_Player1ID = Some 0, sm_Player1Name = ''TBD'', sm_Score1 = 0,
            sm_Player2ID = None, sm_Player2Name = ''TBD'', sm_Score2 = 0, sm_Status = 0,
            sm_Unfinished = False, sm_ScheduledDate = [], sm_StartDate = [], sm_EndDate = []\<rparr>"
    by code_simp
  have b: "spec_decorated_name [] 0 = ''#0''"
    by code_simp
  have c: "decorate [(5, [])] [[(''PlayerID'', JInt 5)]]
      = Inr [[(''PlayerID'', JInt 5), (''PlayerName'', JStr ''#5'')]]"
    by code_simp
  have d: "spec_decorated_name [(5, [])] 5 = []"
    by code_simp
  have e: "fst (match_scores_update
        (with_player (JDict [(''Name'', JStr ''Ronnie'')])
           (scores_world (JList [JDict [(''ID'', JInt 1), (''Player1ID'', JInt 5)]])))
        [''main''] None empty_cache JNull)
      = Inr \<lparr>sr_count = 1,
             sr_matches =
               [\<lparr>sm_MatchID = 1, sm_EventID = None, sm_EventName = [], sm_EventType = [],
                 sm_EventCity = [], sm_Player1ID = Some 5, sm_Player1Name = ''Ronnie'', sm_Score1 = 0,
                 sm_Player2ID = None, sm_Player2Name = ''TBD'', sm_Score2 = 0, sm_Status = 0,
                 sm_Unfinished = False, sm_ScheduledDate = [], sm_StartDate = [], sm_EndDate = []\<rparr>]\<rparr>"
    by (simp add: match_scores_update_def with_player_def scores_world_def demo_world_def
        empty_cache_def get_current_matches_def and_then_def score_row_def py_get_def
        py_get_default_def py_or_def py_str_def scores_as_int_def as_int_result_def
        none_or_empty_def type_or_value_error_def events_map_of_def event_field_def
        first_pass_name_def or_minus_one_def id_truthy_def missing_player_ids_def
        row_missing_def List.map_filter_def scores_backfill_def paced_player_fetch_def
        get_player_def store_names_def player_name_from_payload_def name_keys_def
        save_player_cache_def re_resolve_def renamed_def Let_def)
  have f: "spec_decorated_name (players empty_cache) 5 = ''#5''"
    by code_simp
  from a b c d e f show ?thesis by (intro conjI)
qed

theorem decorated_names_witness:
  "decorate [(5, ''Judd Trump'')] [[(''PlayerID'', JStr ''5'')], [(''ID'', JInt 8)]]
     = Inr [[(''PlayerID'', JStr ''5''), (''PlayerName'', JStr ''Judd Trump'')],
            [(''ID'', JInt 8), (''PlayerName'', JStr ''#8'')]]
   \<and> (\<exists>r cache' store'.
        match_scores_update
          (with_player (JDict [(''Name'', JStr ''Ronnie'')])
             (scores_world (JList [JDict [(''ID'', JInt 1), (''Player1ID'', JInt 5), (''Player2ID'', JInt 8)]])))
          [''main''] None \<lparr>players = [(8, ''Mark Selby'')], last_refreshed = JNull\<rparr> JNull
          = (Inr r, cache', store')
        \<and> (\<forall>row \<in> set (sr_matches r).
              (sm_Player1ID row = Some 5 \<longrightarrow> sm_Player1Name row = ''Ronnie'')
            \<and> (sm_Player2ID row = Some 8 \<longrightarrow> sm_Player2Name row = ''Mark Selby'')))
   \<and> (\<exists>r cache' store'.
        match_scores_update
          ((with_player (JDict [(''Name'', JStr ''Ronnie'')])
             (scores_world (JList [JDict [(''ID'', JInt 1), (''Player1ID'', JInt 5), (''Player2ID'', JInt 8)]])))
             \<lparr>store_save_error := Some StoreError\<rparr>)
          [''main''] None \<lparr>players = [(8, ''Mark Selby'')], last_refreshed = JNull\<rparr> JNull
          = (Inr r, cache', store')
        \<and> (\<forall>row \<in> set (sr_matches r).
              (sm_Player1ID row = Some 5 \<longrightarrow> sm_Player1Name row = ''#5'')
            \<and> (sm_Player2ID row = Some 8 \<longrightarrow> sm_Player2Name row = ''Mark Selby'')))"
proof -
  let ?wf = "(with_player (JDict [(''Name'', JStr ''Ronnie'')])
             (scores_world (JList [JDict [(''ID'', JInt 1), (''Player1ID'', JInt 5), (''Player2ID'', JInt 8)]])))
             \<lparr>store_save_error := Some StoreError\<rparr>"
  have s5: "string_of_int 5 = ''5''"
    by code_simp
  let ?ps = "[(5, ''Judd Trump'')] :: (int \<times> string) list"
  let ?rows = "[[(''PlayerID'', JStr ''5'')], [(''ID'', JInt 8)]]"
  let ?w = "with_player (JDict [(''Name'', JStr ''Ronnie'')])
             (scores_world (JList [JDict [(''ID'', JInt 1), (''Player1ID'', JInt 5), (''Player2ID'', JInt 8)]]))"
  let ?c = "\<lparr>players = [(8, ''Mark Selby'')], last_refreshed = JNull\<rparr>"
  have p: "ranking_pid [(''PlayerID'', JStr ''5'')] = Inr 5" "ranking_pid [(''ID'', JInt 8)] = Inr 8"
    by (simp_all add: ranking_pid_def py_get_def py_get_default_def py_or_def
        int_of_string_def int_strip_def is_int_space_def MAX_STR_DIGITS_def parse_nat_def
        is_digit_def digit_val_def)
  obtain out where d: "decorate ?ps ?rows = Inr out"
    using p by (simp add: decorate_def and_then_def)
  have s8: "string_of_int 8 = ''8''"
    by code_simp
  obtain r cache' store' where
    upd: "match_scores_update ?w [''main''] None ?c JNull = (Inr r, cache', store')"
    by (simp add: match_scores_update_def with_player_def scores_world_def demo_world_def
        get_current_matches_def and_then_def score_row_def py_get_def
        py_get_default_def py_or_def py_str_def scores_as_int_def as_int_result_def
        none_or_empty_def type_or_value_error_def events_map_of_def event_field_def
        first_pass_name_def or_minus_one_def id_truthy_def missing_player_ids_def
        row_missing_def List.map_filter_def scores_backfill_def paced_player_fetch_def
        get_player_def store_names_def player_name_from_payload_def name_keys_def
        save_player_cache_def re_resolve_def renamed_def Let_def)
  have save: "store_save_error ?w = None"
    by (simp add: with_player_def scores_world_def demo_world_def)
  have after: "players (fst (snd (match_scores_update ?w [''main''] None ?c JNull)))
      = [(8, ''Mark Selby''), (5, ''Ronnie'')]"
    by (simp add: match_scores_update_def with_player_def scores_world_def demo_world_def
        get_current_matches_def and_then_def score_row_def py_get_def py_get_default_def
        py_or_def scores_as_int_def as_int_result_def none_or_empty_def type_or_value_error_def
        missing_player_ids_def row_missing_def List.map_filter_def scores_backfill_def
        paced_player_fetch_def get_player_def store_names_def player_name_from_payload_def
        name_keys_def py_str_def save_player_cache_def Let_def)
  with upd have c': "players cache' = [(8, ''Mark Selby''), (5, ''Ronnie'')]" by simp
  note t1 = decorated_names [where ps = ?ps and rows = ?rows and out = out and pid = 5
      and name = "''Judd Trump''" and w = ?w and tours = "[''main'']" and events_data = None
      and cache = ?c and store = JNull and r = r and cache' = cache' and store' = store'
      and n = 5]
  note t2 = decorated_names [where ps = ?ps and rows = ?rows and out = out and pid = 8
      and name = "''Judd Trump''" and w = ?w and tours = "[''main'']" and events_data = None
      and cache = ?c and store = JNull and r = r and cache' = cache' and store' = store'
      and n = 8]
  from t1 d have len: "length out = 2"
    and nth: "\<forall>i < length out. \<exists>pid. ranking_pid (?rows ! i) = Inr pid
          \<and> out ! i = AList.update ''PlayerName'' (JStr (name_or_hash ?ps pid)) (?rows ! i)"
    by simp_all
  from t1 have n5: "name_or_hash ?ps 5 = ''Judd Trump''" by simp
  from t2 s8 have n8: "name_or_hash ?ps 8 = ''#8''" by simp
  from nth [rule_format, of 0] len have "\<exists>pid. ranking_pid (?rows ! 0) = Inr pid
          \<and> out ! 0 = AList.update ''PlayerName'' (JStr (name_or_hash ?ps pid)) (?rows ! 0)"
    by simp
  with p n5 have o0: "out ! 0 = [(''PlayerID'', JStr ''5''), (''PlayerName'', JStr ''Judd Trump'')]"
    by auto
  from nth [rule_format, of 1] len have "\<exists>pid. ranking_pid (?rows ! 1) = Inr pid
          \<and> out ! 1 = AList.update ''PlayerName'' (JStr (name_or_hash ?ps pid)) (?rows ! 1)"
    by simp
  with p n8 have o1: "out ! 1 = [(''ID'', JInt 8), (''PlayerName'', JStr ''#8'')]"
    by auto
  have "out = [out ! 0, out ! 1]" using len
    by (cases out; cases "tl out"; cases "tl (tl out)") auto
  with o0 o1 d have A: "decorate ?ps ?rows = Inr [[(''PlayerID'', JStr ''5''), (''PlayerName'', JStr ''Judd Trump'')],
            [(''ID'', JInt 8), (''PlayerName'', JStr ''#8'')]]" by simp
  have B: "\<forall>row \<in> set (sr_matches r).
              (sm_Player1ID row = Some 5 \<longrightarrow> sm_Player1Name row = ''Ronnie'')
            \<and> (sm_Player2ID row = Some 8 \<longrightarrow> sm_Player2Name row = ''Mark Selby'')"
  proof
    fix row assume row: "row \<in> set (sr_matches r)"
    from decorated_names [where w = ?w and tours = "[''main'']" and events_data = None
      and cache = ?c and store = JNull and r = r and cache' = cache' and store' = store'
      and row = row and n = 5] upd save row c'
    have b1: "sm_Player1ID row = Some 5 \<longrightarrow> sm_Player1Name row = ''Ronnie''" by simp
    from decorated_names [where w = ?w and tours = "[''main'']" and events_data = None
      and cache = ?c and store = JNull and r = r and cache' = cache' and store' = store'
      and row = row and n = 8] upd save row c'
    have b2: "sm_Player2ID row = Some 8 \<longrightarrow> sm_Player2Name row = ''Mark Selby''" by simp
    from b1 b2 show "(sm_Player1ID row = Some 5 \<longrightarrow> sm_Player1Name row = ''Ronnie'')
            \<and> (sm_Player2ID row = Some 8 \<longrightarrow> sm_Player2Name row = ''Mark Selby'')" ..
  qed
  obtain rf cachef storef where
    updf: "match_scores_update ?wf [''main''] None ?c JNull = (Inr rf, cachef, storef)"
    by (simp add: match_scores_update_def with_player_def scores_world_def demo_world_def
        get_current_matches_def and_then_def score_row_def py_get_def
        py_get_default_def py_or_def py_str_def scores_as_int_def as_int_result_def
        none_or_empty_def type_or_value_error_def events_map_of_def event_field_def
        first_pass_name_def or_minus_one_def id_truthy_def missing_player_ids_def
        row_missing_def List.map_filter_def scores_backfill_def paced_player_fetch_def
        get_player_def store_names_def player_name_from_payload_def name_keys_def
        save_player_cache_def re_resolve_def renamed_def Let_def)
  have savef: "store_save_error ?wf \<noteq> None"
    by (simp add: with_player_def scores_world_def demo_world_def)
  have C: "\<forall>row \<in> set (sr_matches rf).
              (sm_Player1ID row = Some 5 \<longrightarrow> sm_Player1Name row = ''#5'')
            \<and> (sm_Player2ID row = Some 8 \<longrightarrow> sm_Player2Name row = ''Mark Selby'')"
  proof
    fix row assume row: "row \<in> set (sr_matches rf)"
    from decorated_names [where w = ?wf and tours = "[''main'']" and events_data = None
      and cache = ?c and store = JNull and r = rf and cache' = cachef and store' = storef
      and row = row and n = 5] updf savef row s5
    have b1: "sm_Player1ID row = Some 5 \<longrightarrow> sm_Player1Name row = ''#5''" by simp
    from decorated_names [where w = ?wf and tours = "[''main'']" and events_data = None
      and cache = ?c and store = JNull and r = rf and cache' = cachef and store' = storef
      and row = row and n = 8] updf savef row
    have b2: "sm_Player2ID row = Some 8 \<longrightarrow> sm_Player2Name row = ''Mark Selby''" by simp
    from b1 b2 show "(sm_Player1ID row = Some 5 \<longrightarrow> sm_Player1Name row = ''#5'')
            \<and> (sm_Player2ID row = Some 8 \<longrightarrow> sm_Player2Name row = ''Mark Selby'')" ..
  qed
  from upd B have AB: "\<exists>r cache' store'.
        match_scores_update ?w [''main''] None ?c JNull = (Inr r, cache', store')
        \<and> (\<forall>row \<in> set (sr_matches r).
              (sm_Player1ID row = Some 5 \<longrightarrow> sm_Player1Name row = ''Ronnie'')
            \<and> (sm_Player2ID row = Some 8 \<longrightarrow> sm_Player2Name row = ''Mark Selby''))"
    by blast
  from updf C have CC: "\<exists>r cache' store'.
        match_scores_update ?wf [''main''] None ?c JNull = (Inr r, cache', store')
        \<and> (\<forall>row \<in> set (sr_matches r).
              (sm_Player1ID row = Some 5 \<longrightarrow> sm_Player1Name row = ''#5'')
            \<and> (sm_Player2ID row = Some 8 \<longrightarrow> sm_Player2Name row = ''Mark Selby''))"
    by blast
  from A AB CC show ?thesis by (intro conjI)
qed

lemma refresh_skipped_iff:
  "refresh_skipped w cache = Inr True \<longleftrightarrow>
     truthy (last_refreshed cache) \<and>
     (\<exists>t. parse_datetime w (last_refreshed cache) = Inr (Some (Aware t))
          \<and> utcnow w - t < timedelta_days 30)"
proof (cases "truthy (last_refreshed cache)")
  case False
  then show ?thesis by (simp add: refresh_skipped_def)
next
  case True
  show ?thesis
  proof (cases "parse_datetime w (last_refreshed cache)")
    case (Inl e)
    with True show ?thesis by (simp add: refresh_skipped_def)
  next
    case (Inr d)
    show ?thesis
    proof (cases d)
      case None
      with True Inr show ?thesis by (simp add: refresh_skipped_def)
    next
      case (Some l)
      with True Inr show ?thesis
        by (cases l) (simp_all add: refresh_skipped_def and_then_def MONTHLY_REFRESH_DAYS_def)
    qed
  qed
qed

text \<open>
  C4. The monthly refresh is skipped, leaving cache and store untouched, exactly when
  \<open>last_refreshed\<close> is set, parses to a point in time, and less than 30 days (of 86400
  seconds each) have passed since; it proceeds when \<open>last_refreshed\<close> is \<^verbatim>\<open>None\<close> or
  empty, when it does not parse, and when 30 days or more have passed. A refresh 29 days
  ago is skipped, one 31 days ago is not.
\<close>

theorem monthly_refresh_due:
  "(refresh_skipped w cache = Inr True \<longleftrightarrow>
      truthy (last_refreshed cache) \<and>
      (\<exists>t. parse_datetime w (last_refreshed cache) = Inr (Some (Aware t))
           \<and> utcnow w - t < timedelta_days 30))
   \<and> timedelta_days 30 = 30 * 86400 * 1000000
   \<and> (refresh_skipped w cache = Inr True \<longrightarrow>
        maybe_refresh_player_cache_monthly w cache store = (Inr (), cache, store))
   \<and> (last_refreshed cache = JNull \<or> last_refreshed cache = JStr [] \<longrightarrow>
        maybe_refresh_player_cache_monthly w cache store = monthly_refresh_body w cache store)
   \<and> (parse_datetime w (last_refreshed cache) = Inl e \<or> parse_datetime w (last_refreshed cache) = Inr None \<longrightarrow>
        maybe_refresh_player_cache_monthly w cache store = monthly_refresh_body w cache store)
   \<and> (parse_datetime w (last_refreshed cache) = Inr (Some (Aware t)) \<and> timedelta_days 30 \<le> utcnow w - t \<longrightarrow>
        maybe_refresh_player_cache_monthly w cache store = monthly_refresh_body w cache store)
   \<and> (truthy (last_refreshed cache)
        \<and> parse_datetime w (last_refreshed cache) = Inr (Some (Aware (utcnow w - timedelta_days 29))) \<longrightarrow>
        maybe_refresh_player_cache_monthly w cache store = (Inr (), cache, store))
   \<and> (parse_datetime w (last_refreshed cache) = Inr (Some (Aware (utcnow w - timedelta_days 31))) \<longrightarrow>
        maybe_refresh_player_cache_monthly w cache store = monthly_refresh_body w cache store)"
proof (intro conjI impI)
  show "refresh_skipped w cache = Inr True \<longleftrightarrow>
      truthy (last_refreshed cache) \<and>
      (\<exists>t. parse_datetime w (last_refreshed cache) = Inr (Some (Aware t))
           \<and> utcnow w - t < timedelta_days 30)"
    by (rule refresh_skipped_iff)
next
  show "timedelta_days 30 = 30 * 86400 * 1000000" by (simp add: timedelta_days_def)
next
  assume "refresh_skipped w cache = Inr True"
  then show "maybe_refresh_player_cache_monthly w cache store = (Inr (), cache, store)"
    by (simp add: maybe_refresh_player_cache_monthly_def)
next
  assume "last_refreshed cache = JNull \<or> last_refreshed cache = JStr []"
  then have "refresh_skipped w cache = Inr False"
    by (auto simp: refresh_skipped_def)
  then show "maybe_refresh_player_cache_monthly w cache store = monthly_refresh_body w cache store"
    by (simp add: maybe_refresh_player_cache_monthly_def)
next
  assume "parse_datetime w (last_refreshed cache) = Inl e \<or> parse_datetime w (last_refreshed cache) = Inr None"
  then have "refresh_skipped w cache = Inr False"
    by (auto simp: refresh_skipped_def)
  then show "maybe_refresh_player_cache_monthly w cache store = monthly_refresh_body w cache store"
    by (simp add: maybe_refresh_player_cache_monthly_def)
next
  assume "parse_datetime w (last_refreshed cache) = Inr (Some (Aware t)) \<and> timedelta_days 30 \<le> utcnow w - t"
  then have "refresh_skipped w cache = Inr False"
    by (auto simp: refresh_skipped_def and_then_def MONTHLY_REFRESH_DAYS_def)
  then show "maybe_refresh_player_cache_monthly w cache store = monthly_refresh_body w cache store"
    by (simp add: maybe_refresh_player_cache_monthly_def)
next
  assume "truthy (last_refreshed cache)
        \<and> parse_datetime w (last_refreshed cache) = Inr (Some (Aware (utcnow w - timedelta_days 29)))"
  then have "refresh_skipped w cache = Inr True"
    by (simp add: refresh_skipped_iff timedelta_days_def)
  then show "maybe_refresh_player_cache_monthly w cache store = (Inr (), cache, store)"
    by (simp add: maybe_refresh_player_cache_monthly_def)
next
  assume "parse_datetime w (last_refreshed cache) = Inr (Some (Aware (utcnow w - timedelta_days 31)))"
  then have "refresh_skipped w cache = Inr False"
    by (auto simp: refresh_skipped_def and_then_def MONTHLY_REFRESH_DAYS_def timedelta_days_def)
  then show "maybe_refresh_player_cache_monthly w cache store = monthly_refresh_body w cache store"
    by (simp add: maybe_refresh_player_cache_monthly_def)
qed


lemma refresh_naive_time_raises:
  "truthy (last_refreshed cache) \<Longrightarrow>
     parse_datetime w (last_refreshed cache) = Inr (Some (Naive t)) \<Longrightarrow>
     maybe_refresh_player_cache_monthly w cache store = (Inl TypeError, cache, store)"
  by (simp add: maybe_refresh_player_cache_monthly_def refresh_skipped_def and_then_def)

theorem monthly_refresh_due_witness:
  "maybe_refresh_player_cache_monthly
     (demo_world\<lparr>utcnow := 31 * 86400 * 1000000,
        parse_datetime := (\<lambda>v. if v = JStr ''2024-01-03T00:00:00+00:00''
                                 then Inr (Some (Aware (2 * 86400 * 1000000))) else Inr None)\<rparr>)
     \<lparr>players = [(5, ''Judd Trump'')], last_refreshed = JStr ''2024-01-03T00:00:00+00:00''\<rparr>
     JNull
   = (Inr (), \<lparr>players = [(5, ''Judd Trump'')], last_refreshed = JStr ''2024-01-03T00:00:00+00:00''\<rparr>, JNull)
   \<and> fst (snd (maybe_refresh_player_cache_monthly
        (demo_world\<lparr>utcnow := 33 * 86400 * 1000000,
           parse_datetime := (\<lambda>v. if v = JStr ''2024-01-03T00:00:00+00:00''
                                    then Inr (Some (Aware (2 * 86400 * 1000000))) else Inr None)\<rparr>)
        \<lparr>players = [(5, ''Judd Trump'')], last_refreshed = JStr ''2024-01-03T00:00:00+00:00''\<rparr>
        JNull))
      = \<lparr>players = [(5, ''Judd Trump'')], last_refreshed = JStr ''now''\<rparr>"
proof -
  let ?p = "\<lambda>v. if v = JStr ''2024-01-03T00:00:00+00:00''
                  then Inr (Some (Aware (2 * 86400 * 1000000))) else Inr None"
  let ?c = "\<lparr>players = [(5, ''Judd Trump'')], last_refreshed = JStr ''2024-01-03T00:00:00+00:00''\<rparr>"
  let ?w1 = "demo_world\<lparr>utcnow := 31 * 86400 * 1000000, parse_datetime := ?p\<rparr>"
  let ?w2 = "demo_world\<lparr>utcnow := 33 * 86400 * 1000000, parse_datetime := ?p\<rparr>"
  have A: "maybe_refresh_player_cache_monthly ?w1 ?c JNull = (Inr (), ?c, JNull)"
    using monthly_refresh_due [where w = ?w1 and cache = ?c and store = JNull]
    by (simp add: timedelta_days_def)
  have "maybe_refresh_player_cache_monthly ?w2 ?c JNull = monthly_refresh_body ?w2 ?c JNull"
    using monthly_refresh_due [where w = ?w2 and cache = ?c and store = JNull
        and t = "2 * 86400 * 1000000"]
    by (simp add: timedelta_days_def)
  moreover have "fst (snd (monthly_refresh_body ?w2 ?c JNull))
      = \<lparr>players = [(5, ''Judd Trump'')], last_refreshed = JStr ''now''\<rparr>"
    by (simp add: monthly_refresh_body_def monthly_ids_def demo_world_def and_then_def get_current_season_def
        extract_season_def season_keys_def py_get_def py_get_default_def none_or_empty_def
        get_rankings_def top100_ids_def paced_player_fetch_def store_names_def
        save_player_cache_def Let_def)
  ultimately show ?thesis using A by simp
qed

end
